theory Spec2Isabelle
  imports Main
begin

section \<open>JavaScript values used by the handlers\<close>

text \<open>
  The handlers test strings for truthiness (\<^verbatim>\<open>!userId\<close>, \<^verbatim>\<open>price?.products?.name\<close>):
  \<^verbatim>\<open>null\<close>, \<^verbatim>\<open>undefined\<close> and the empty string are falsy, every other string is truthy.
  An optional string is \<open>string option\<close>, \<open>None\<close> standing for null/undefined.
\<close>

fun truthy :: "string option \<Rightarrow> bool" where
  "truthy None = False"
| "truthy (Some s) = (s \<noteq> [])"

text \<open>
  \<^verbatim>\<open>String.prototype.toLowerCase\<close>, on the characters that can take part in a match with
  the ASCII words \<^verbatim>\<open>premium\<close> and \<^verbatim>\<open>enterprise\<close>: the letters A to Z move to a to z, every
  other character is kept. (No character outside A to Z lower-cases to text in which one
  of the two words appears: the only one that yields a letter of theirs, the dotted capital
  I, yields an i followed by a combining dot.)
\<close>

definition lower_char :: "char \<Rightarrow> char" where
  "lower_char c =
     (case map_of (zip ''ABCDEFGHIJKLMNOPQRSTUVWXYZ'' ''abcdefghijklmnopqrstuvwxyz'') c of
        Some l \<Rightarrow> l
      | None \<Rightarrow> c)"

definition toLowerCase :: "string \<Rightarrow> string" where
  "toLowerCase s = map lower_char s"

text \<open>\<^verbatim>\<open>String.prototype.startsWith\<close> and \<^verbatim>\<open>String.prototype.includes\<close>.\<close>

fun startsWith :: "string \<Rightarrow> string \<Rightarrow> bool" where
  "startsWith s [] = True"
| "startsWith [] (n # ns) = False"
| "startsWith (c # cs) (n # ns) = (c = n \<and> startsWith cs ns)"

fun str_includes :: "string \<Rightarrow> string \<Rightarrow> bool" where
  "str_includes [] needle = (needle = [])"
| "str_includes (c # cs) needle = (startsWith (c # cs) needle \<or> str_includes cs needle)"

text \<open>
  What "the name contains the word, ignoring case" means, independently of how
  \<open>str_includes\<close> searches: the lower-cased name splits around the word.
\<close>

definition contains_ci :: "string \<Rightarrow> string \<Rightarrow> bool" where
  "contains_ci name word = (\<exists>pre post. toLowerCase name = pre @ word @ post)"

text \<open>
  A JavaScript number as \<^verbatim>\<open>JSON.parse\<close> yields it: a whole number, a finite number that is
  not whole, or an infinity (the JSON literal \<^verbatim>\<open>-1e999\<close> parses to \<^verbatim>\<open>-Infinity\<close>; JSON has no
  NaN). The handlers only compare such a number with the whole numbers of the store and
  subtract it from them, so a number that is not whole is given by the whole number just
  below it: \<open>Fractional k\<close> lies strictly between \<open>k\<close> and \<open>k + 1\<close>.
\<close>

datatype js_number = Whole int | Fractional int | PlusInfinity | MinusInfinity

text \<open>
  \<^verbatim>\<open>a < x\<close> and \<^verbatim>\<open>a - x\<close> for a whole \<open>a\<close>. The comparison is exact. The subtraction is exact
  for operands within the range of an INTEGER column, the only ones it is reached with in
  \<^verbatim>\<open>recordUsage\<close> (the insert before it refuses every other finite number); for a number that
  is not whole it gives the unrounded difference.
\<close>

fun js_less :: "int \<Rightarrow> js_number \<Rightarrow> bool" where
  "js_less a (Whole n) = (a < n)"
| "js_less a (Fractional k) = (a \<le> k)"
| "js_less a PlusInfinity = True"
| "js_less a MinusInfinity = False"

fun js_minus :: "int \<Rightarrow> js_number \<Rightarrow> js_number" where
  "js_minus a (Whole n) = Whole (a - n)"
| "js_minus a (Fractional k) = Fractional (a - k - 1)"
| "js_minus a PlusInfinity = MinusInfinity"
| "js_minus a MinusInfinity = PlusInfinity"

text \<open>
  A number in a JSON text, as \<^verbatim>\<open>JSON.stringify\<close> writes a request to the store or a response:
  an infinity is written as \<^verbatim>\<open>null\<close>.
\<close>

datatype json_number = JsonNull | JsonWhole int | JsonFractional int

fun stringify :: "js_number \<Rightarrow> json_number" where
  "stringify (Whole n) = JsonWhole n"
| "stringify (Fractional k) = JsonFractional k"
| "stringify PlusInfinity = JsonNull"
| "stringify MinusInfinity = JsonNull"

text \<open>
  A nullable INTEGER column read in an arithmetic expression or a comparison of the
  handlers: \<^verbatim>\<open>null\<close> converts to 0.
\<close>

fun to_number :: "int option \<Rightarrow> int" where
  "to_number None = 0"
| "to_number (Some n) = n"

section \<open>Tier resolution\<close>

text \<open>
  \<^verbatim>\<open>api.stripe.webhook.ts\<close>, lines 110 to 122 and 218 to 230 (the two copies are the same):
  \<^verbatim>\<open>
  let tier = 'basic';
  let usageLimit = 500; // basic tier default
  if (price?.products?.name) {
    const productName = price.products.name.toLowerCase();
    if (productName.includes('premium')) { tier = 'premium'; usageLimit = 2000; }
    else if (productName.includes('enterprise')) { tier = 'enterprise'; usageLimit = 10000; }
  }
  \<close>
  The argument is \<^verbatim>\<open>price?.products?.name\<close>: \<open>None\<close> when the price row, its product or the
  name is missing.
\<close>

definition resolve_tier :: "string option \<Rightarrow> string \<times> int" where
  "resolve_tier name =
     (if truthy name then
        (case name of
           None \<Rightarrow> (''basic'', 500)
         | Some n \<Rightarrow>
            (let productName = toLowerCase n in
             if str_includes productName ''premium'' then (''premium'', 2000)
             else if str_includes productName ''enterprise'' then (''enterprise'', 10000)
             else (''basic'', 500)))
      else (''basic'', 500))"

text \<open>
  \<^verbatim>\<open>usage.tsx\<close> (the \<^verbatim>\<open>api.stripe\<close> action), case \<^verbatim>\<open>createSubscription\<close>, lines 299 to 315:
  the tier is chosen first, the limit is then read off the tier.
\<close>

definition createSubscription_tier :: "string option \<Rightarrow> string" where
  "createSubscription_tier name =
     (if truthy name then
        (case name of
           None \<Rightarrow> ''basic''
         | Some n \<Rightarrow>
            (let productName = toLowerCase n in
             if str_includes productName ''premium'' then ''premium''
             else if str_includes productName ''enterprise'' then ''enterprise''
             else ''basic''))
      else ''basic'')"

definition createSubscription_limit :: "string \<Rightarrow> int" where
  "createSubscription_limit tier =
     (if tier = ''premium'' then 2000 else if tier = ''enterprise'' then 10000 else 500)"

definition createSubscription_resolve :: "string option \<Rightarrow> string \<times> int" where
  "createSubscription_resolve name =
     (let tier = createSubscription_tier name in (tier, createSubscription_limit tier))"

section \<open>The database\<close>

text \<open>
  The tables of the schema (\<^verbatim>\<open>profiles\<close>, \<^verbatim>\<open>usage_logs\<close>) and of the generated types
  (\<^verbatim>\<open>subscriptions\<close>, \<^verbatim>\<open>prices\<close>), with the columns the handlers read or write. Timestamps
  are kept as the epoch seconds they are computed from. A table with a unique key is a map
  from the key; \<^verbatim>\<open>usage_logs\<close> is the list of its rows in insertion order.

  \<^verbatim>\<open>usage_credits\<close> and \<^verbatim>\<open>credits_used\<close> are declared \<^verbatim>\<open>INTEGER DEFAULT ...\<close> without
  \<^verbatim>\<open>NOT NULL\<close>: they hold a 32-bit integer or NULL (\<open>None\<close>), and \<^verbatim>\<open>recordUsage\<close> can write
  NULL to both. \<^verbatim>\<open>usage_limit\<close> is declared the same way, but every write to it is one of the
  constants 10, 100, 500, 2000 and 10000, and it is kept as a number. The store refuses a
  value outside the range of INTEGER (error 22003) instead of wrapping it.
\<close>

definition in_integer :: "int \<Rightarrow> bool" where
  "in_integer n = (- 2147483648 \<le> n \<and> n \<le> 2147483647)"

type_synonym uuid = string

record profile =
  email :: string
  username :: "string option"
  subscription_tier :: "string option"
  subscription_status :: "string option"
  stripe_customer_id :: "string option"
  usage_credits :: "int option"
  usage_limit :: int

record usage_log =
  user_id :: uuid
  action_type :: string
  credits_used :: "int option"
  metadata :: "string option"

record subscription_row =
  sub_user_id :: uuid
  status :: string
  price_id :: string
  quantity :: "int option"
  cancel_at_period_end :: bool
  current_period_start :: int
  current_period_end :: int
  canceled_at :: "int option"
  cancel_at :: "int option"
  ended_at :: "int option"
  trial_start :: "int option"
  trial_end :: "int option"

text \<open>
  \<^verbatim>\<open>quantity\<close> of a subscription row is a number, or \<open>None\<close> for the column's default, which
  a row takes when it is inserted without a quantity (the sources do not give the default).

  \<open>prices\<close> maps a \<^verbatim>\<open>stripe_price_id\<close> to the result of \<^verbatim>\<open>select('products(name)')\<close>: the name of
  the joined product, \<open>None\<close> when the price has no product.
\<close>

record database =
  profiles :: "uuid \<rightharpoonup> profile"
  usage_logs :: "usage_log list"
  subscriptions :: "string \<rightharpoonup> subscription_row"
  prices :: "string \<rightharpoonup> string option"

text \<open>
  Every awaited call to the store returns \<^verbatim>\<open>{ data, error }\<close>, and the handlers return early
  on \<^verbatim>\<open>error\<close>. A call fails when the store says so (a constraint, no row for
  \<^verbatim>\<open>.single()\<close>) or for a reason outside the model (network, permissions): the calls that
  fail for such a reason are a parameter, one name for each call site.
\<close>

datatype store_call =
    RecordUsage_select_profile
  | RecordUsage_insert_log
  | RecordUsage_update_credits
  | GetUserUsage_select_profile
  | GetUserUsage_select_logs
  | SignUp_insert_profile
  | Webhook_upsert_subscription
  | Webhook_update_status
  | Webhook_select_price
  | Webhook_reset_credits
  | Webhook_end_subscription
  | Webhook_downgrade_profile
  | Webhook_select_subscription
  | Webhook_invoice_reset
  | Webhook_mark_past_due

text \<open>\<^verbatim>\<open>supabase.from('profiles').update(...).eq('id', uid)\<close>: the row with that id, if any.\<close>

definition update_profile :: "uuid \<Rightarrow> (profile \<Rightarrow> profile) \<Rightarrow> database \<Rightarrow> database" where
  "update_profile uid f db =
     (case profiles db uid of
        None \<Rightarrow> db
      | Some p \<Rightarrow> db\<lparr>profiles := (profiles db)(uid \<mapsto> f p)\<rparr>)"

text \<open>
  What an INTEGER column makes of a JSON number sent by \<^verbatim>\<open>insert\<close> or \<^verbatim>\<open>update\<close>:
  \<^verbatim>\<open>null\<close> is stored as NULL, a whole number within the range is stored, and anything else
  is refused (\<open>None\<close>: invalid input or out of range).
\<close>

fun integer_column :: "json_number \<Rightarrow> int option option" where
  "integer_column JsonNull = Some None"
| "integer_column (JsonWhole n) = (if in_integer n then Some (Some n) else None)"
| "integer_column (JsonFractional k) = None"

text \<open>
  SQL's \<^verbatim>\<open>a - b\<close> on INTEGER columns: NULL when an operand is NULL. The result can be
  stored when it is NULL or within the range.
\<close>

fun sql_minus :: "int option \<Rightarrow> int option \<Rightarrow> int option" where
  "sql_minus (Some a) (Some b) = Some (a - b)"
| "sql_minus a b = None"

fun storable :: "int option \<Rightarrow> bool" where
  "storable None = True"
| "storable (Some r) = in_integer r"

text \<open>
  The schema's trigger \<^verbatim>\<open>on_usage_log_created\<close>, after each insert into \<^verbatim>\<open>usage_logs\<close>:
  \<^verbatim>\<open>
  UPDATE public.profiles
  SET usage_credits = usage_credits - NEW.credits_used
  WHERE id = NEW.user_id;
  \<close>
  A difference outside the range of INTEGER raises an error (\<open>None\<close>).
\<close>

definition update_usage_credits :: "usage_log \<Rightarrow> database \<Rightarrow> database option" where
  "update_usage_credits new db =
     (case profiles db (user_id new) of
        None \<Rightarrow> Some db
      | Some p \<Rightarrow>
          (let r = sql_minus (usage_credits p) (credits_used new) in
           if storable r then
             Some (db\<lparr>profiles := (profiles db)(user_id new \<mapsto> p\<lparr>usage_credits := r\<rparr>)\<rparr>)
           else None))"

text \<open>
  \<^verbatim>\<open>supabase.from('usage_logs').insert(row)\<close>, the row's \<^verbatim>\<open>credits_used\<close> as the JSON number
  sent. The insert is refused when \<^verbatim>\<open>user_id\<close> has no profile (it references
  \<^verbatim>\<open>profiles(id)\<close>), when the column cannot take the number, and when the trigger raises:
  the row and the trigger's update are one statement, so then nothing is written.
  Otherwise the row is appended and the trigger has run.
\<close>

definition insert_usage_log ::
  "uuid \<Rightarrow> string \<Rightarrow> json_number \<Rightarrow> string option \<Rightarrow> database \<Rightarrow> database option" where
  "insert_usage_log uid atype used meta db =
     (if profiles db uid = None then None
      else
        (case integer_column used of
           None \<Rightarrow> None
         | Some stored \<Rightarrow>
             (let new = \<lparr>user_id = uid, action_type = atype, credits_used = stored, metadata = meta\<rparr>
              in update_usage_credits new (db\<lparr>usage_logs := usage_logs db @ [new]\<rparr>))))"

text \<open>
  The schema's trigger \<^verbatim>\<open>on_auth_user_created\<close> (function \<^verbatim>\<open>handle_new_user\<close>), after each
  insert into \<^verbatim>\<open>auth.users\<close>; \<^verbatim>\<open>split_part(NEW.email, '@', 1)\<close> is the text before the first
  \<^verbatim>\<open>@\<close>. The insert is refused (\<open>None\<close>) when the primary key is taken.
\<close>

definition handle_new_user :: "uuid \<Rightarrow> string \<Rightarrow> database \<Rightarrow> database option" where
  "handle_new_user new_id new_email db =
     (if profiles db new_id \<noteq> None then None
      else Some (db\<lparr>profiles := (profiles db)(new_id \<mapsto>
        \<lparr>email = new_email,
         username = Some (takeWhile (\<lambda>c. c \<noteq> CHR ''@'') new_email),
         subscription_tier = Some ''free'',
         subscription_status = Some ''active'',
         stripe_customer_id = None,
         usage_credits = Some 10,
         usage_limit = 10\<rparr>)\<rparr>))"

section \<open>The \<^verbatim>\<open>api.stripe\<close> action: \<^verbatim>\<open>recordUsage\<close> and \<^verbatim>\<open>getUserUsage\<close>\<close>

text \<open>
  The JSON body of a request (a body that is not JSON makes \<^verbatim>\<open>request.json()\<close> throw, and
  the outer catch answers 500 without touching the store). \<^verbatim>\<open>creditsUsed\<close> is tested with
  \<^verbatim>\<open>typeof\<close>, so its JSON type is kept, and a number is any number \<^verbatim>\<open>JSON.parse\<close> can
  yield. The other fields are only tested for truthiness. The cases \<^verbatim>\<open>createCustomer\<close> to \<^verbatim>\<open>createPortalSession\<close> of the switch call the
  payment provider and are not part of this model: \<open>UnknownAction\<close> is an action name that
  no case matches.
\<close>

datatype js_value = JsUndefined | JsNull | JsBoolean bool | JsNumber js_number | JsString string

datatype api_action = RecordUsageAction | GetUserUsageAction | UnknownAction

record api_request =
  req_method :: string
  req_action :: api_action
  stripeKey :: "string option"
  supabaseUrl :: "string option"
  supabaseKey :: "string option"
  userId :: "string option"
  actionType :: "string option"
  creditsUsed :: js_value
  req_metadata :: "string option"

text \<open>
  The bodies the two cases answer with, and a response as \<^verbatim>\<open>json(body, { status })\<close>:
  \<open>ErrorBody e\<close> is \<^verbatim>\<open>{ error: e }\<close>, \<open>InsufficientBody e c\<close> is
  \<^verbatim>\<open>{ error: e, creditsRemaining: c }\<close>, \<open>RecordedBody u c l\<close> is
  \<^verbatim>\<open>{ success: true, creditsUsed: u, creditsRemaining: c, usageLimit: l }\<close> and
  \<open>UsageBody p logs totalUsed\<close> is \<^verbatim>\<open>{ profile, usageLogs, statistics }\<close> (of the statistics,
  \<^verbatim>\<open>totalUsed\<close>). The numbers are as \<^verbatim>\<open>JSON.stringify\<close> writes them: \<^verbatim>\<open>creditsRemaining\<close> of
  the second is the column read, a number or \<^verbatim>\<open>null\<close>.
\<close>

datatype response_body =
    ErrorBody string
  | InsufficientBody string "int option"
  | RecordedBody json_number json_number int
  | UsageBody profile "usage_log list" int

type_synonym response = "nat \<times> response_body"

text \<open>\<^verbatim>\<open>typeof creditsUsed !== 'number'\<close>.\<close>

fun not_a_number :: "js_value \<Rightarrow> bool" where
  "not_a_number (JsNumber n) = False"
| "not_a_number v = True"

text \<open>
  Case \<^verbatim>\<open>recordUsage\<close> (\<^verbatim>\<open>usage.tsx\<close>, lines 437 to 492), in the order of the source:
  the validation, the read of the profile, the comparison with the balance read, the insert
  into \<^verbatim>\<open>usage_logs\<close>, the write of \<^verbatim>\<open>newCredits\<close> computed from the balance read. Both
  writes send their number as JSON, and the store refuses what an INTEGER column cannot
  take.
\<close>

definition recordUsage :: "store_call set \<Rightarrow> database \<Rightarrow> api_request \<Rightarrow> response \<times> database" where
  "recordUsage F db req =
     (if \<not> truthy (userId req) \<or> \<not> truthy (actionType req) \<or> not_a_number (creditsUsed req) then
        ((400, ErrorBody ''User ID, action type, and credits used are required''), db)
      else
        (case (userId req, actionType req, creditsUsed req) of
           (Some uid, Some atype, JsNumber x) \<Rightarrow>
             (case (if RecordUsage_select_profile \<in> F then None else profiles db uid) of
                None \<Rightarrow> ((500, ErrorBody ''Failed to fetch profile''), db)
              | Some profile \<Rightarrow>
                  if js_less (to_number (usage_credits profile)) x then
                    ((403, InsufficientBody ''Insufficient credits'' (usage_credits profile)), db)
                  else
                    (case (if RecordUsage_insert_log \<in> F then None
                           else insert_usage_log uid atype (stringify x) (req_metadata req) db) of
                       None \<Rightarrow> ((500, ErrorBody ''Failed to record usage''), db)
                     | Some db1 \<Rightarrow>
                         (let newCredits = js_minus (to_number (usage_credits profile)) x in
                          (case (if RecordUsage_update_credits \<in> F then None
                                 else integer_column (stringify newCredits)) of
                             None \<Rightarrow> ((500, ErrorBody ''Failed to update credits''), db1)
                           | Some stored \<Rightarrow>
                               ((200, RecordedBody (stringify x) (stringify newCredits)
                                        (usage_limit profile)),
                                update_profile uid (\<lambda>p. p\<lparr>usage_credits := stored\<rparr>) db1)))))
         | _ \<Rightarrow> ((400, ErrorBody ''User ID, action type, and credits used are required''), db)))"

text \<open>
  Case \<^verbatim>\<open>getUserUsage\<close> (lines 494 to 542): the profile and the user's last 100 log rows,
  newest first.
\<close>

definition getUserUsage :: "store_call set \<Rightarrow> database \<Rightarrow> api_request \<Rightarrow> response" where
  "getUserUsage F db req =
     (case userId req of
        None \<Rightarrow> (400, ErrorBody ''User ID is required'')
      | Some uid \<Rightarrow>
          if \<not> truthy (userId req) then (400, ErrorBody ''User ID is required'')
          else
            (case (if GetUserUsage_select_profile \<in> F then None else profiles db uid) of
               None \<Rightarrow> (500, ErrorBody ''Failed to fetch profile'')
             | Some profile \<Rightarrow>
                 if GetUserUsage_select_logs \<in> F then (500, ErrorBody ''Failed to fetch usage logs'')
                 else
                   (let usageLogs = take 100 (rev (filter (\<lambda>l. user_id l = uid) (usage_logs db)));
                        totalUsed = sum_list (map (\<lambda>l. to_number (credits_used l)) usageLogs)
                    in (200, UsageBody profile usageLogs totalUsed))))"

text \<open>The action (lines 192 to 211 and 544 to 546): the checks before the switch, then the case.\<close>

definition api_stripe_action :: "store_call set \<Rightarrow> database \<Rightarrow> api_request \<Rightarrow> response \<times> database" where
  "api_stripe_action F db req =
     (if req_method req \<noteq> ''POST'' then ((405, ErrorBody ''Method not allowed''), db)
      else if \<not> truthy (stripeKey req) then ((400, ErrorBody ''Missing Stripe API key''), db)
      else if \<not> truthy (supabaseUrl req) \<or> \<not> truthy (supabaseKey req) then
        ((400, ErrorBody ''Missing Supabase credentials''), db)
      else
        (case req_action req of
           RecordUsageAction \<Rightarrow> recordUsage F db req
         | GetUserUsageAction \<Rightarrow> (getUserUsage F db req, db)
         | UnknownAction \<Rightarrow> ((400, ErrorBody ''Invalid action''), db)))"


section \<open>\<^verbatim>\<open>recordUsage\<close> cut at its awaits\<close>

text \<open>
  \<^verbatim>\<open>recordUsage\<close> awaits the store three times (select, insert, update); between two awaits
  another request may run. A task is a request together with the point it has reached and
  the local variables alive there; a step runs the task up to its next await, the store
  call included.
\<close>

datatype recordUsage_task =
    Pending api_request
  | AwaitInsert uuid string js_number "string option" profile
  | AwaitUpdate uuid js_number profile
  | Finished response

fun recordUsage_step :: "store_call set \<Rightarrow> recordUsage_task \<Rightarrow> database \<Rightarrow> recordUsage_task \<times> database" where
  "recordUsage_step F (Pending req) db =
     (if \<not> truthy (userId req) \<or> \<not> truthy (actionType req) \<or> not_a_number (creditsUsed req) then
        (Finished (400, ErrorBody ''User ID, action type, and credits used are required''), db)
      else
        (case (userId req, actionType req, creditsUsed req) of
           (Some uid, Some atype, JsNumber x) \<Rightarrow>
             (case (if RecordUsage_select_profile \<in> F then None else profiles db uid) of
                None \<Rightarrow> (Finished (500, ErrorBody ''Failed to fetch profile''), db)
              | Some profile \<Rightarrow>
                  if js_less (to_number (usage_credits profile)) x then
                    (Finished (403, InsufficientBody ''Insufficient credits'' (usage_credits profile)), db)
                  else (AwaitInsert uid atype x (req_metadata req) profile, db))
         | _ \<Rightarrow> (Finished (400, ErrorBody ''User ID, action type, and credits used are required''), db)))"
| "recordUsage_step F (AwaitInsert uid atype x meta profile) db =
     (case (if RecordUsage_insert_log \<in> F then None
            else insert_usage_log uid atype (stringify x) meta db) of
        None \<Rightarrow> (Finished (500, ErrorBody ''Failed to record usage''), db)
      | Some db1 \<Rightarrow> (AwaitUpdate uid x profile, db1))"
| "recordUsage_step F (AwaitUpdate uid x profile) db =
     (let newCredits = js_minus (to_number (usage_credits profile)) x in
      (case (if RecordUsage_update_credits \<in> F then None
             else integer_column (stringify newCredits)) of
         None \<Rightarrow> (Finished (500, ErrorBody ''Failed to update credits''), db)
       | Some stored \<Rightarrow>
           (Finished (200, RecordedBody (stringify x) (stringify newCredits) (usage_limit profile)),
            update_profile uid (\<lambda>p. p\<lparr>usage_credits := stored\<rparr>) db)))"
| "recordUsage_step F (Finished r) db = (Finished r, db)"

text \<open>
  Two requests in flight against one store: the schedule says whose step runs next.
\<close>

datatype turn = First | Second

fun interleave ::
  "store_call set \<Rightarrow> turn list \<Rightarrow> recordUsage_task \<times> recordUsage_task \<times> database \<Rightarrow>
   recordUsage_task \<times> recordUsage_task \<times> database" where
  "interleave F [] s = s"
| "interleave F (First # sched) (a, b, db) =
     (case recordUsage_step F a db of (a', db') \<Rightarrow> interleave F sched (a', b, db'))"
| "interleave F (Second # sched) (a, b, db) =
     (case recordUsage_step F b db of (b', db') \<Rightarrow> interleave F sched (a, b', db'))"

text \<open>A response with \<^verbatim>\<open>response.ok\<close>: status 200 to 299.\<close>

definition response_ok :: "response \<Rightarrow> bool" where
  "response_ok r = (200 \<le> fst r \<and> fst r \<le> 299)"

fun task_succeeded :: "recordUsage_task \<Rightarrow> bool" where
  "task_succeeded (Finished r) = response_ok r"
| "task_succeeded t = False"

section \<open>The usage tracker and the usage middleware\<close>

text \<open>
  \<^verbatim>\<open>UsageTracker\<close> (\<^verbatim>\<open>tracker.ts\<close>) posts to the \<^verbatim>\<open>api.stripe\<close> action with \<^verbatim>\<open>fetch\<close>. The
  environment of a call: the store calls that fail, and the message of the error \<^verbatim>\<open>fetch\<close>
  throws, if it throws.
\<close>

record environment =
  failing :: "store_call set"
  fetch_error :: "string option"

record usage_tracker =
  tracker_userId :: string
  tracker_stripeKey :: string
  tracker_supabaseUrl :: string
  tracker_supabaseKey :: string

text \<open>
  \<^verbatim>\<open>UsageResponse\<close>; a number field is what was read off the JSON body, \<open>None\<close>
  (\<^verbatim>\<open>undefined\<close>) when the body does not have it.
\<close>

record usage_response =
  success :: bool
  resp_creditsUsed :: "json_number option"
  resp_creditsRemaining :: "json_number option"
  resp_usageLimit :: "json_number option"
  resp_error :: "string option"

fun body_error :: "response_body \<Rightarrow> string option" where
  "body_error (ErrorBody e) = Some e"
| "body_error (InsufficientBody e c) = Some e"
| "body_error b = None"

fun body_recorded ::
  "response_body \<Rightarrow> json_number option \<times> json_number option \<times> json_number option" where
  "body_recorded (RecordedBody u c l) = (Some u, Some c, Some (JsonWhole l))"
| "body_recorded (InsufficientBody e c) =
     (None, Some (case c of None \<Rightarrow> JsonNull | Some n \<Rightarrow> JsonWhole n), None)"
| "body_recorded b = (None, None, None)"

definition tracker_request :: "usage_tracker \<Rightarrow> api_action \<Rightarrow> api_request" where
  "tracker_request t act =
     \<lparr>req_method = ''POST'', req_action = act,
      stripeKey = Some (tracker_stripeKey t),
      supabaseUrl = Some (tracker_supabaseUrl t),
      supabaseKey = Some (tracker_supabaseKey t),
      userId = Some (tracker_userId t),
      actionType = None, creditsUsed = JsUndefined, req_metadata = None\<rparr>"

text \<open>\<^verbatim>\<open>UsageTracker.recordUsage\<close> (lines 45 to 93).\<close>

definition tracker_recordUsage ::
  "environment \<Rightarrow> database \<Rightarrow> usage_tracker \<Rightarrow> string \<Rightarrow> int \<Rightarrow> string option \<Rightarrow>
   usage_response \<times> database" where
  "tracker_recordUsage env db t atype n meta =
     (case fetch_error env of
        Some msg \<Rightarrow>
          (\<lparr>success = False, resp_creditsUsed = Some (JsonWhole 0),
            resp_creditsRemaining = Some (JsonWhole 0), resp_usageLimit = Some (JsonWhole 0),
            resp_error = Some msg\<rparr>, db)
      | None \<Rightarrow>
          (case api_stripe_action (failing env) db
                  ((tracker_request t RecordUsageAction)
                     \<lparr>actionType := Some atype, creditsUsed := JsNumber (Whole n),
                       req_metadata := meta\<rparr>) of
             (resp, db') \<Rightarrow>
               if \<not> response_ok resp then
                 (\<lparr>success = False, resp_creditsUsed = Some (JsonWhole 0),
                   resp_creditsRemaining = Some (JsonWhole 0),
                   resp_usageLimit = Some (JsonWhole 0), resp_error = body_error (snd resp)\<rparr>, db')
               else
                 (case body_recorded (snd resp) of
                    (u, c, l) \<Rightarrow>
                      (\<lparr>success = True, resp_creditsUsed = u, resp_creditsRemaining = c,
                        resp_usageLimit = l, resp_error = None\<rparr>, db'))))"

text \<open>
  \<^verbatim>\<open>UsageTracker.getUserUsage\<close> (lines 98 to 125): \<open>Inl e\<close> is the object \<^verbatim>\<open>{ error: e }\<close>,
  \<open>Inr b\<close> the body of an ok response.
\<close>

definition tracker_getUserUsage ::
  "environment \<Rightarrow> database \<Rightarrow> usage_tracker \<Rightarrow> string option + response_body" where
  "tracker_getUserUsage env db t =
     (case fetch_error env of
        Some msg \<Rightarrow> Inl (Some msg)
      | None \<Rightarrow>
          (case api_stripe_action (failing env) db (tracker_request t GetUserUsageAction) of
             (resp, db') \<Rightarrow>
               if \<not> response_ok resp then Inl (body_error (snd resp)) else Inr (snd resp)))"

text \<open>
  \<^verbatim>\<open>UsageTracker.hasEnoughCredits\<close> (lines 130 to 142). With a truthy \<^verbatim>\<open>usage.error\<close> the
  answer is false; with a falsy one, or a body without \<^verbatim>\<open>profile\<close>, the read of
  \<^verbatim>\<open>usage.profile.usage_credits\<close> throws and the catch answers false.
\<close>

definition hasEnoughCredits :: "environment \<Rightarrow> database \<Rightarrow> usage_tracker \<Rightarrow> int \<Rightarrow> bool" where
  "hasEnoughCredits env db t creditsNeeded =
     (case tracker_getUserUsage env db t of
        Inl e \<Rightarrow> False
      | Inr (UsageBody p logs totalUsed) \<Rightarrow> to_number (usage_credits p) \<ge> creditsNeeded
      | Inr b \<Rightarrow> False)"

text \<open>
  \<^verbatim>\<open>UsageMiddlewareOptions\<close> and \<^verbatim>\<open>checkAndRecordUsage\<close> (\<^verbatim>\<open>usage-middleware.ts\<close>, lines 20
  to 56). \<^verbatim>\<open>creditsRequired\<close> is the credit cost the calling feature passes, a whole number.
\<close>

record usage_options =
  opt_userId :: string
  opt_stripeKey :: string
  opt_supabaseUrl :: string
  opt_supabaseKey :: string
  opt_actionType :: string
  creditsRequired :: int
  opt_metadata :: "string option"

record usage_decision =
  allowed :: bool
  decision_error :: "string option"

definition checkAndRecordUsage ::
  "environment \<Rightarrow> database \<Rightarrow> usage_options \<Rightarrow> usage_decision \<times> database" where
  "checkAndRecordUsage env db options =
     (if opt_userId options = [] \<or> opt_stripeKey options = [] \<or>
         opt_supabaseUrl options = [] \<or> opt_supabaseKey options = [] then
        (\<lparr>allowed = False, decision_error = Some ''Missing required credentials''\<rparr>, db)
      else
        (let tracker = \<lparr>tracker_userId = opt_userId options, tracker_stripeKey = opt_stripeKey options,
                        tracker_supabaseUrl = opt_supabaseUrl options,
                        tracker_supabaseKey = opt_supabaseKey options\<rparr>
         in if \<not> hasEnoughCredits env db tracker (creditsRequired options) then
              (\<lparr>allowed = False, decision_error = Some ''Insufficient credits''\<rparr>, db)
            else
              (case tracker_recordUsage env db tracker (opt_actionType options)
                      (creditsRequired options) (opt_metadata options) of
                 (result, db') \<Rightarrow>
                   if \<not> success result then
                     (\<lparr>allowed = False, decision_error = resp_error result\<rparr>, db')
                   else (\<lparr>allowed = True, decision_error = None\<rparr>, db'))))"

section \<open>The sign-up route\<close>

text \<open>\<^verbatim>\<open>supabase.from('profiles').insert(row)\<close>: refused when the primary key is taken.\<close>

definition insert_profile :: "uuid \<Rightarrow> profile \<Rightarrow> database \<Rightarrow> database option" where
  "insert_profile uid row db =
     (if profiles db uid \<noteq> None then None
      else Some (db\<lparr>profiles := (profiles db)(uid \<mapsto> row)\<rparr>))"

text \<open>
  The result of \<^verbatim>\<open>supabase.auth.signUp\<close>, a call to the authentication service: an error, or
  \<^verbatim>\<open>data.user\<close> (its id and email), which may be null.
\<close>

datatype auth_result = AuthError string | AuthData "(uuid \<times> string option) option"

record auth_request =
  auth_method :: string
  auth_supabaseUrl :: "string option"
  auth_supabaseKey :: "string option"
  auth_email :: "string option"
  auth_password :: "string option"

datatype auth_response = AuthFailure nat string | AuthUser "(uuid \<times> string option) option"

text \<open>
  Case \<^verbatim>\<open>signUp\<close> of \<^verbatim>\<open>api.auth.ts\<close> (lines 22 to 57). The row it inserts names
  \<^verbatim>\<open>id\<close>, \<^verbatim>\<open>email\<close>, \<^verbatim>\<open>subscription_tier\<close>, \<^verbatim>\<open>usage_credits\<close> and \<^verbatim>\<open>usage_limit\<close>; the other
  columns take the schema's defaults. A failed insert is logged and the sign-up still
  succeeds. \<open>db\<close> is the store as the authentication service left it.
\<close>

definition signUp :: "store_call set \<Rightarrow> database \<Rightarrow> auth_request \<Rightarrow> auth_result \<Rightarrow> auth_response \<times> database" where
  "signUp F db req auth =
     (if auth_method req \<noteq> ''POST'' then (AuthFailure 405 ''Method not allowed'', db)
      else if \<not> truthy (auth_supabaseUrl req) \<or> \<not> truthy (auth_supabaseKey req) then
        (AuthFailure 400 ''Missing Supabase credentials'', db)
      else if \<not> truthy (auth_email req) \<or> \<not> truthy (auth_password req) then
        (AuthFailure 400 ''Email and password are required'', db)
      else
        (case auth of
           AuthError msg \<Rightarrow> (AuthFailure 400 msg, db)
         | AuthData None \<Rightarrow> (AuthUser None, db)
         | AuthData (Some (uid, user_email)) \<Rightarrow>
             (case (if SignUp_insert_profile \<in> F then None
                    else insert_profile uid
                           \<lparr>email = (case user_email of None \<Rightarrow> [] | Some e \<Rightarrow> e),
                            username = None,
                            subscription_tier = Some ''free'',
                            subscription_status = Some ''active'',
                            stripe_customer_id = None,
                            usage_credits = Some 100,
                            usage_limit = 100\<rparr> db) of
                None \<Rightarrow> (AuthUser (Some (uid, user_email)), db)
              | Some db1 \<Rightarrow> (AuthUser (Some (uid, user_email)), db1))))"

section \<open>The webhook\<close>

text \<open>
  The subscription and invoice objects of an event, with the fields the handler reads.
  \<open>items\<close> is \<^verbatim>\<open>items.data\<close>, each item its \<^verbatim>\<open>price.id\<close> and \<^verbatim>\<open>quantity\<close>;
  \<open>metadata_userId\<close> is \<^verbatim>\<open>metadata?.userId\<close>.
\<close>

record stripe_subscription =
  sub_id :: string
  metadata_userId :: "string option"
  sub_status :: string
  items :: "(string \<times> int option) list"
  sub_cancel_at_period_end :: bool
  sub_current_period_start :: int
  sub_current_period_end :: int
  sub_canceled_at :: "int option"
  sub_cancel_at :: "int option"
  sub_ended_at :: "int option"
  sub_trial_start :: "int option"
  sub_trial_end :: "int option"

record stripe_invoice =
  invoice_subscription :: "string option"
  invoice_customer :: "string option"

text \<open>
  \<^verbatim>\<open>event.type\<close> with \<^verbatim>\<open>event.data\<close>; an updated subscription comes with
  \<^verbatim>\<open>previous_attributes?.status\<close>. An event also has an id and the time it was created,
  neither of which the handler reads.
\<close>

datatype event_data =
    SubscriptionCreated stripe_subscription
  | SubscriptionUpdated stripe_subscription "string option"
  | SubscriptionDeleted stripe_subscription
  | InvoicePaymentSucceeded stripe_invoice
  | InvoicePaymentFailed stripe_invoice
  | OtherEvent string

record stripe_event =
  event_id :: string
  event_created :: int
  event_data :: event_data

text \<open>
  The request: its method, the \<^verbatim>\<open>stripe-signature\<close> header, the four secrets as
  \<^verbatim>\<open>getSecrets\<close> returns them (the empty string when absent), and what
  \<^verbatim>\<open>stripe.webhooks.constructEvent\<close> makes of the body: the event, or \<open>None\<close> when the
  verification throws.
\<close>

record webhook_request =
  wh_method :: string
  stripe_signature :: "string option"
  stripeWebhookSecret :: string
  wh_stripeKey :: string
  wh_supabaseUrl :: string
  wh_supabaseKey :: string
  constructEvent :: "stripe_event option"

datatype webhook_body = Text string | Received

type_synonym webhook_response = "nat \<times> webhook_body"

text \<open>\<^verbatim>\<open>x ? new Date(x * 1000).toISOString() : null\<close>: null and 0 are falsy.\<close>

definition date_or_null :: "int option \<Rightarrow> int option" where
  "date_or_null x = (case x of None \<Rightarrow> None | Some t \<Rightarrow> if t = 0 then None else Some t)"

text \<open>\<^verbatim>\<open>supabase.from('subscriptions').update(...).eq('stripe_subscription_id', sid)\<close>.\<close>

definition update_subscription ::
  "string \<Rightarrow> (subscription_row \<Rightarrow> subscription_row) \<Rightarrow> database \<Rightarrow> database" where
  "update_subscription sid f db =
     (case subscriptions db sid of
        None \<Rightarrow> db
      | Some row \<Rightarrow> db\<lparr>subscriptions := (subscriptions db)(sid \<mapsto> f row)\<rparr>)"

text \<open>
  \<^verbatim>\<open>supabase.from('prices').select('products(name)').eq('stripe_price_id', pid).single()\<close>,
  read as \<^verbatim>\<open>price?.products?.name\<close>: the error of this call is not looked at, and a failed
  call leaves \<^verbatim>\<open>price\<close> null.
\<close>

definition select_product_name :: "store_call set \<Rightarrow> database \<Rightarrow> string \<Rightarrow> string option" where
  "select_product_name F db pid =
     (if Webhook_select_price \<in> F then None
      else (case prices db pid of None \<Rightarrow> None | Some name \<Rightarrow> name))"

text \<open>
  Cases \<^verbatim>\<open>customer.subscription.created\<close> and \<^verbatim>\<open>customer.subscription.updated\<close> (lines 41
  to 141). Reading \<^verbatim>\<open>items.data[0].price.id\<close> of a subscription without items throws; the
  handler's outer catch answers 500 with \<^verbatim>\<open>Webhook error:\<close> and the exception's message,
  kept here as \<open>Text ''Webhook error''\<close>.

  The upsert sends its row as JSON, and \<^verbatim>\<open>JSON.stringify\<close> leaves out a property that is
  \<^verbatim>\<open>undefined\<close>: when the item has no \<^verbatim>\<open>quantity\<close> the column is not in the row, so a row
  that exists keeps its quantity and a new row takes the default. Every other column of
  the row is sent (the optional dates as a date or \<^verbatim>\<open>null\<close>).
\<close>

definition subscription_changed ::
  "store_call set \<Rightarrow> database \<Rightarrow> bool \<Rightarrow> stripe_subscription \<Rightarrow> string option \<Rightarrow>
   webhook_response \<times> database" where
  "subscription_changed F db is_created subscription previous_status =
     (case metadata_userId subscription of
        None \<Rightarrow> ((400, Text ''No userId found in subscription metadata''), db)
      | Some uid \<Rightarrow>
          if uid = [] then ((400, Text ''No userId found in subscription metadata''), db)
          else
            (case items subscription of
               [] \<Rightarrow> ((500, Text ''Webhook error''), db)
             | (price, qty) # others \<Rightarrow>
                 if Webhook_upsert_subscription \<in> F then
                   ((500, Text ''Error updating subscription''), db)
                 else
                   (let db1 = db\<lparr>subscriptions := (subscriptions db)(sub_id subscription \<mapsto>
                          \<lparr>sub_user_id = uid,
                           status = sub_status subscription,
                           price_id = price,
                           quantity =
                             (case qty of
                                Some q \<Rightarrow> Some q
                              | None \<Rightarrow>
                                  (case subscriptions db (sub_id subscription) of
                                     None \<Rightarrow> None
                                   | Some stored \<Rightarrow> quantity stored)),
                           cancel_at_period_end = sub_cancel_at_period_end subscription,
                           current_period_start = sub_current_period_start subscription,
                           current_period_end = sub_current_period_end subscription,
                           canceled_at = date_or_null (sub_canceled_at subscription),
                           cancel_at = date_or_null (sub_cancel_at subscription),
                           ended_at = date_or_null (sub_ended_at subscription),
                           trial_start = date_or_null (sub_trial_start subscription),
                           trial_end = date_or_null (sub_trial_end subscription)\<rparr>)\<rparr>
                    in if Webhook_update_status \<in> F then ((500, Text ''Error updating profile''), db1)
                       else
                         (let db2 = update_profile uid
                                      (\<lambda>p. p\<lparr>subscription_status := Some (sub_status subscription)\<rparr>) db1
                          in if sub_status subscription = ''active'' \<and>
                                (is_created \<or>
                                 (truthy previous_status \<and> previous_status \<noteq> Some ''active'')) then
                               (case resolve_tier (select_product_name F db2 price) of
                                  (tier, usageLimit) \<Rightarrow>
                                    if Webhook_reset_credits \<in> F then
                                      ((500, Text ''Error resetting usage credits''), db2)
                                    else
                                      ((200, Received),
                                       update_profile uid
                                         (\<lambda>p. p\<lparr>subscription_tier := Some tier,
                                                 usage_credits := Some usageLimit,
                                                 usage_limit := usageLimit\<rparr>) db2))
                             else ((200, Received), db2)))))"

text \<open>
  Case \<^verbatim>\<open>customer.subscription.deleted\<close> (lines 143 to 182);
  \<^verbatim>\<open>new Date(subscription.ended_at * 1000)\<close> with a null \<^verbatim>\<open>ended_at\<close> is the epoch.
\<close>

definition subscription_deleted ::
  "store_call set \<Rightarrow> database \<Rightarrow> stripe_subscription \<Rightarrow> webhook_response \<times> database" where
  "subscription_deleted F db subscription =
     (case metadata_userId subscription of
        None \<Rightarrow> ((400, Text ''No userId found in subscription metadata''), db)
      | Some uid \<Rightarrow>
          if uid = [] then ((400, Text ''No userId found in subscription metadata''), db)
          else if Webhook_end_subscription \<in> F then ((500, Text ''Error updating subscription''), db)
          else
            (let db1 = update_subscription (sub_id subscription)
                         (\<lambda>row. row\<lparr>status := sub_status subscription,
                                     ended_at := Some (case sub_ended_at subscription of
                                                         None \<Rightarrow> 0 | Some t \<Rightarrow> t)\<rparr>) db
             in if Webhook_downgrade_profile \<in> F then ((500, Text ''Error updating profile''), db1)
                else
                  ((200, Received),
                   update_profile uid
                     (\<lambda>p. p\<lparr>subscription_status := Some ''canceled'',
                             subscription_tier := Some ''free'',
                             usage_limit := 100\<rparr>) db1)))"

text \<open>
  Case \<^verbatim>\<open>invoice.payment_succeeded\<close> (lines 184 to 247). \<open>retrieve\<close> is
  \<^verbatim>\<open>stripe.subscriptions.retrieve\<close>, a call to the payment provider that throws for an
  unknown id.
\<close>

definition invoice_payment_succeeded ::
  "store_call set \<Rightarrow> (string \<rightharpoonup> stripe_subscription) \<Rightarrow> database \<Rightarrow> stripe_invoice \<Rightarrow>
   webhook_response \<times> database" where
  "invoice_payment_succeeded F retrieve db invoice =
     (case (invoice_subscription invoice, invoice_customer invoice) of
        (Some subscriptionId, Some customerId) \<Rightarrow>
          if subscriptionId = [] \<or> customerId = [] then
            ((400, Text ''Missing subscription or customer ID in invoice''), db)
          else
            (case (if Webhook_select_subscription \<in> F then None
                   else subscriptions db subscriptionId) of
               None \<Rightarrow> ((500, Text ''Error fetching subscription''), db)
             | Some subscriptionData \<Rightarrow>
                 (case retrieve subscriptionId of
                    None \<Rightarrow> ((500, Text ''Webhook error''), db)
                  | Some subscription \<Rightarrow>
                      (case items subscription of
                         [] \<Rightarrow> ((500, Text ''Webhook error''), db)
                       | (price, qty) # others \<Rightarrow>
                           (case resolve_tier (select_product_name F db price) of
                              (tier, usageLimit) \<Rightarrow>
                                if Webhook_invoice_reset \<in> F then
                                  ((500, Text ''Error resetting usage credits''), db)
                                else
                                  ((200, Received),
                                   update_profile (sub_user_id subscriptionData)
                                     (\<lambda>p. p\<lparr>usage_credits := Some usageLimit,
                                             usage_limit := usageLimit\<rparr>) db)))))
      | _ \<Rightarrow> ((400, Text ''Missing subscription or customer ID in invoice''), db))"

text \<open>Case \<^verbatim>\<open>invoice.payment_failed\<close> (lines 249 to 286).\<close>

definition invoice_payment_failed ::
  "store_call set \<Rightarrow> database \<Rightarrow> stripe_invoice \<Rightarrow> webhook_response \<times> database" where
  "invoice_payment_failed F db invoice =
     (case invoice_subscription invoice of
        None \<Rightarrow> ((400, Text ''Missing subscription ID in invoice''), db)
      | Some subscriptionId \<Rightarrow>
          if subscriptionId = [] then ((400, Text ''Missing subscription ID in invoice''), db)
          else
            (case (if Webhook_select_subscription \<in> F then None
                   else subscriptions db subscriptionId) of
               None \<Rightarrow> ((500, Text ''Error fetching subscription''), db)
             | Some subscriptionData \<Rightarrow>
                 if Webhook_mark_past_due \<in> F then ((500, Text ''Error updating profile''), db)
                 else
                   ((200, Received),
                    update_profile (sub_user_id subscriptionData)
                      (\<lambda>p. p\<lparr>subscription_status := Some ''past_due''\<rparr>) db)))"

text \<open>The switch on \<^verbatim>\<open>event.type\<close> (lines 40 to 291).\<close>

fun handle_event ::
  "store_call set \<Rightarrow> (string \<rightharpoonup> stripe_subscription) \<Rightarrow> database \<Rightarrow> event_data \<Rightarrow>
   webhook_response \<times> database" where
  "handle_event F retrieve db (SubscriptionCreated subscription) =
     subscription_changed F db True subscription None"
| "handle_event F retrieve db (SubscriptionUpdated subscription previous_status) =
     subscription_changed F db False subscription previous_status"
| "handle_event F retrieve db (SubscriptionDeleted subscription) =
     subscription_deleted F db subscription"
| "handle_event F retrieve db (InvoicePaymentSucceeded invoice) =
     invoice_payment_succeeded F retrieve db invoice"
| "handle_event F retrieve db (InvoicePaymentFailed invoice) =
     invoice_payment_failed F db invoice"
| "handle_event F retrieve db (OtherEvent name) = ((200, Received), db)"

text \<open>The webhook's action (lines 8 to 302).\<close>

definition webhook_action ::
  "store_call set \<Rightarrow> (string \<rightharpoonup> stripe_subscription) \<Rightarrow> database \<Rightarrow> webhook_request \<Rightarrow>
   webhook_response \<times> database" where
  "webhook_action F retrieve db request =
     (if wh_method request \<noteq> ''POST'' then ((405, Text ''Method not allowed''), db)
      else if \<not> truthy (stripe_signature request) then ((400, Text ''Stripe signature missing''), db)
      else if stripeWebhookSecret request = [] \<or> wh_stripeKey request = [] \<or>
              wh_supabaseUrl request = [] \<or> wh_supabaseKey request = [] then
        ((400, Text ''Missing required secrets''), db)
      else
        (case constructEvent request of
           None \<Rightarrow> ((400, Text ''Webhook signature verification failed''), db)
         | Some event \<Rightarrow> handle_event F retrieve db (event_data event)))"

section \<open>Requests and stores used to state the properties\<close>

text \<open>
  A spend of \<open>x\<close> credits by account \<open>uid\<close>: a request that passes every check of the
  action before the balance is read.
\<close>

definition is_spend :: "api_request \<Rightarrow> uuid \<Rightarrow> js_number \<Rightarrow> bool" where
  "is_spend req uid x =
     (req_method req = ''POST'' \<and> truthy (stripeKey req) \<and> truthy (supabaseUrl req) \<and>
      truthy (supabaseKey req) \<and> req_action req = RecordUsageAction \<and>
      userId req = Some uid \<and> uid \<noteq> [] \<and> truthy (actionType req) \<and>
      creditsUsed req = JsNumber x)"

text \<open>
  The row such a request inserts into \<^verbatim>\<open>usage_logs\<close> when the column stores \<open>used\<close>, and the
  store once the row is in and the trigger has taken the row's amount off the balance of
  the account, whose profile was \<open>p\<close>.
\<close>

definition spend_entry :: "api_request \<Rightarrow> uuid \<Rightarrow> int option \<Rightarrow> usage_log" where
  "spend_entry req uid used =
     \<lparr>user_id = uid, action_type = (case actionType req of None \<Rightarrow> [] | Some a \<Rightarrow> a),
      credits_used = used, metadata = req_metadata req\<rparr>"

definition after_spend :: "database \<Rightarrow> uuid \<Rightarrow> profile \<Rightarrow> usage_log \<Rightarrow> database" where
  "after_spend db uid p entry =
     db\<lparr>usage_logs := usage_logs db @ [entry],
        profiles := (profiles db)(uid \<mapsto>
          p\<lparr>usage_credits := sql_minus (usage_credits p) (credits_used entry)\<rparr>)\<rparr>"


definition example_spend :: "uuid \<Rightarrow> int \<Rightarrow> api_request" where
  "example_spend uid n =
     \<lparr>req_method = ''POST'', req_action = RecordUsageAction, stripeKey = Some ''sk_test'',
      supabaseUrl = Some ''https://db.example'', supabaseKey = Some ''anon'',
      userId = Some uid, actionType = Some ''chat'', creditsUsed = JsNumber (Whole n),
      req_metadata = None\<rparr>"

definition example_profile :: "string \<Rightarrow> string \<Rightarrow> int \<Rightarrow> int \<Rightarrow> profile" where
  "example_profile tier st credits limit =
     \<lparr>email = ''a@example.com'', username = Some ''a'', subscription_tier = Some tier,
      subscription_status = Some st, stripe_customer_id = None,
      usage_credits = Some credits, usage_limit = limit\<rparr>"

text \<open>A store with the single account \<open>u1\<close> and the price of a premium product.\<close>

definition example_db :: "profile \<Rightarrow> database" where
  "example_db p =
     \<lparr>profiles = [''u1'' \<mapsto> p], usage_logs = [], subscriptions = Map.empty,
      prices = [''price_premium'' \<mapsto> Some ''Acme Premium Plan'']\<rparr>"

text \<open>
  Two spends of 6 credits by \<open>u1\<close>, who has 10: both read the balance before either
  writes.
\<close>

definition example_race :: "recordUsage_task \<times> recordUsage_task \<times> database" where
  "example_race =
     interleave {} [First, Second, First, First, Second, Second]
       (Pending (example_spend ''u1'' 6), Pending (example_spend ''u1'' 6),
        example_db (example_profile ''free'' ''active'' 10 10))"

text \<open>
  A webhook request that passes the checks before the switch and carries \<open>event\<close>: the
  signature is there, the four secrets are there, and the verification returns the event.
\<close>

definition verified :: "webhook_request \<Rightarrow> stripe_event \<Rightarrow> bool" where
  "verified request event =
     (wh_method request = ''POST'' \<and> truthy (stripe_signature request) \<and>
      stripeWebhookSecret request \<noteq> [] \<and> wh_stripeKey request \<noteq> [] \<and>
      wh_supabaseUrl request \<noteq> [] \<and> wh_supabaseKey request \<noteq> [] \<and>
      constructEvent request = Some event)"

definition example_webhook :: "stripe_event \<Rightarrow> webhook_request" where
  "example_webhook event =
     \<lparr>wh_method = ''POST'', stripe_signature = Some ''t=1,v1=5257a869'',
      stripeWebhookSecret = ''whsec_test'', wh_stripeKey = ''sk_test'',
      wh_supabaseUrl = ''https://db.example'', wh_supabaseKey = ''anon'',
      constructEvent = Some event\<rparr>"

text \<open>The subscription \<open>sub_1\<close> of account \<open>u1\<close> to the premium price, in a given status.\<close>

definition example_subscription :: "string \<Rightarrow> stripe_subscription" where
  "example_subscription st =
     \<lparr>sub_id = ''sub_1'', metadata_userId = Some ''u1'', sub_status = st,
      items = [(''price_premium'', Some 1)], sub_cancel_at_period_end = False,
      sub_current_period_start = 1700000000, sub_current_period_end = 1702592000,
      sub_canceled_at = None, sub_cancel_at = None, sub_ended_at = None,
      sub_trial_start = None, sub_trial_end = None\<rparr>"




text \<open>
  An invoice paid for \<open>sub_1\<close>, and what the payment provider returns for \<open>sub_1\<close>.
\<close>

definition example_invoice_event :: stripe_event where
  "example_invoice_event =
     \<lparr>event_id = ''evt_4'', event_created = 400,
      event_data = InvoicePaymentSucceeded
        \<lparr>invoice_subscription = Some ''sub_1'', invoice_customer = Some ''cus_1''\<rparr>\<rparr>"

definition example_retrieve :: "string \<rightharpoonup> stripe_subscription" where
  "example_retrieve = [''sub_1'' \<mapsto> example_subscription ''active'']"

text \<open>
  The store of the replay scenario: \<open>u1\<close> on the free tier with 10 credits and the
  subscription \<open>sub_1\<close> on record; then the invoice event applied once; then a spend of 5.
\<close>

definition example_subscribed_db :: database where
  "example_subscribed_db =
     (example_db (example_profile ''free'' ''active'' 10 10))
       \<lparr>subscriptions :=
          [''sub_1'' \<mapsto>
             \<lparr>sub_user_id = ''u1'', status = ''active'', price_id = ''price_premium'',
              quantity = Some 1, cancel_at_period_end = False,
              current_period_start = 1700000000, current_period_end = 1702592000,
              canceled_at = None, cancel_at = None, ended_at = None,
              trial_start = None, trial_end = None\<rparr>]\<rparr>"

definition example_after_invoice :: database where
  "example_after_invoice =
     snd (webhook_action {} example_retrieve example_subscribed_db
            (example_webhook example_invoice_event))"

definition example_after_invoice_and_spend :: database where
  "example_after_invoice_and_spend =
     snd (api_stripe_action {} example_after_invoice (example_spend ''u1'' 5))"




text \<open>
  Options of the usage middleware for account \<open>u1\<close>, and an environment in which \<^verbatim>\<open>fetch\<close>
  works and the given store calls fail.
\<close>

definition example_options :: "int \<Rightarrow> usage_options" where
  "example_options n =
     \<lparr>opt_userId = ''u1'', opt_stripeKey = ''sk_test'', opt_supabaseUrl = ''https://db.example'',
      opt_supabaseKey = ''anon'', opt_actionType = ''chat'', creditsRequired = n,
      opt_metadata = None\<rparr>"

definition example_env :: "store_call set \<Rightarrow> environment" where
  "example_env F = \<lparr>failing = F, fetch_error = None\<rparr>"

text \<open>The row the middleware's spend inserts.\<close>

definition options_entry :: "usage_options \<Rightarrow> usage_log" where
  "options_entry options =
     \<lparr>user_id = opt_userId options, action_type = opt_actionType options,
      credits_used = Some (creditsRequired options), metadata = opt_metadata options\<rparr>"

section \<open>Facts about the string functions\<close>

lemma startsWith_iff: "startsWith s n \<longleftrightarrow> (\<exists>post. s = n @ post)"
proof (induction s n rule: startsWith.induct)
  case (1 s)
  show ?case by simp
next
  case (2 n ns)
  show ?case by simp
next
  case (3 c cs n ns)
  then show ?case by auto
qed

lemma includes_iff: "str_includes s n \<longleftrightarrow> (\<exists>pre post. s = pre @ n @ post)"
proof (induction s)
  case Nil
  show ?case by simp
next
  case (Cons c cs)
  show ?case
  proof
    assume "str_includes (c # cs) n"
    then consider "startsWith (c # cs) n" | "str_includes cs n" by auto
    then show "\<exists>pre post. c # cs = pre @ n @ post"
    proof cases
      case 1
      then obtain post where "c # cs = n @ post" using startsWith_iff by blast
      then have "c # cs = [] @ n @ post" by simp
      then show ?thesis by blast
    next
      case 2
      then obtain pre post where "cs = pre @ n @ post" using Cons.IH by blast
      then have "c # cs = (c # pre) @ n @ post" by simp
      then show ?thesis by blast
    qed
  next
    assume "\<exists>pre post. c # cs = pre @ n @ post"
    then obtain pre post where eq: "c # cs = pre @ n @ post" by blast
    show "str_includes (c # cs) n"
    proof (cases pre)
      case Nil
      with eq have "startsWith (c # cs) n" using startsWith_iff by auto
      then show ?thesis by simp
    next
      case (Cons p ps)
      with eq have "cs = ps @ n @ post" by simp
      then have "str_includes cs n" using Cons.IH by blast
      then show ?thesis by simp
    qed
  qed
qed

lemma contains_ci_includes: "contains_ci name word \<longleftrightarrow> str_includes (toLowerCase name) word"
  by (simp add: contains_ci_def includes_iff)

section \<open>Tier resolution: the two copies agree, and what they compute\<close>

lemma createSubscription_resolve_eq: "createSubscription_resolve name = resolve_tier name"
  by (cases name)
     (simp_all add: createSubscription_resolve_def createSubscription_tier_def
        createSubscription_limit_def resolve_tier_def Let_def)

lemma contains_ci_empty: "contains_ci [] (c # w) = False"
  by (simp add: contains_ci_def toLowerCase_def)

text \<open>
  C7 (as amended). Tier resolution classifies a product name by case-insensitive substring
  match, testing \<^verbatim>\<open>premium\<close> first: a name containing \<^verbatim>\<open>premium\<close> resolves to (premium, 2000);
  a name containing \<^verbatim>\<open>enterprise\<close> and not \<^verbatim>\<open>premium\<close> resolves to (enterprise, 10000); every
  other name, and missing product data, resolves to (basic, 500). "Acme Premium Plan"
  resolves to (premium, 2000) and "Acme Basic" to (basic, 500). The resolution in
  \<^verbatim>\<open>createSubscription\<close> computes the same pair.
\<close>

theorem tier_resolution:
  "(contains_ci n ''premium'' \<longrightarrow> resolve_tier (Some n) = (''premium'', 2000)) \<and>
   (\<not> contains_ci n ''premium'' \<and> contains_ci n ''enterprise'' \<longrightarrow>
      resolve_tier (Some n) = (''enterprise'', 10000)) \<and>
   (\<not> contains_ci n ''premium'' \<and> \<not> contains_ci n ''enterprise'' \<longrightarrow>
      resolve_tier (Some n) = (''basic'', 500)) \<and>
   resolve_tier None = (''basic'', 500) \<and>
   resolve_tier (Some ''Acme Premium Plan'') = (''premium'', 2000) \<and>
   resolve_tier (Some ''Acme Basic'') = (''basic'', 500) \<and>
   createSubscription_resolve (Some n) = resolve_tier (Some n) \<and>
   createSubscription_resolve None = resolve_tier None"
proof -
  have named: "resolve_tier (Some n) =
      (if contains_ci n ''premium'' then (''premium'', 2000)
       else if contains_ci n ''enterprise'' then (''enterprise'', 10000)
       else (''basic'', 500))"
  proof (cases "n = []")
    case True
    then show ?thesis by (simp add: resolve_tier_def contains_ci_empty)
  next
    case False
    then show ?thesis by (simp add: resolve_tier_def contains_ci_includes)
  qed
  have missing: "resolve_tier None = (''basic'', 500)"
    by (simp add: resolve_tier_def)
  have ex1: "resolve_tier (Some ''Acme Premium Plan'') = (''premium'', 2000)"
    by (simp add: resolve_tier_def toLowerCase_def lower_char_def)
  have ex2: "resolve_tier (Some ''Acme Basic'') = (''basic'', 500)"
    by (simp add: resolve_tier_def toLowerCase_def lower_char_def)
  show ?thesis
    using named missing ex1 ex2 createSubscription_resolve_eq by simp
qed

text \<open>
  C7, witness: "Gold Enterprise" (enterprise without premium), "PREMIUM" (upper case) and
  "Starter" (neither word) meet the three hypotheses.
\<close>

theorem tier_resolution_witness:
  "\<not> contains_ci ''Gold Enterprise'' ''premium'' \<and> contains_ci ''Gold Enterprise'' ''enterprise'' \<and>
   resolve_tier (Some ''Gold Enterprise'') = (''enterprise'', 10000) \<and>
   contains_ci ''PREMIUM'' ''premium'' \<and> resolve_tier (Some ''PREMIUM'') = (''premium'', 2000) \<and>
   \<not> contains_ci ''Starter'' ''premium'' \<and> \<not> contains_ci ''Starter'' ''enterprise'' \<and>
   resolve_tier (Some ''Starter'') = (''basic'', 500)"
proof -
  have a: "\<not> contains_ci ''Gold Enterprise'' ''premium'' \<and> contains_ci ''Gold Enterprise'' ''enterprise''"
    by (simp add: contains_ci_includes toLowerCase_def lower_char_def)
  have b: "contains_ci ''PREMIUM'' ''premium''"
    by (simp add: contains_ci_includes toLowerCase_def lower_char_def)
  have c: "\<not> contains_ci ''Starter'' ''premium'' \<and> \<not> contains_ci ''Starter'' ''enterprise''"
    by (simp add: contains_ci_includes toLowerCase_def lower_char_def)
  show ?thesis
    using a b c tier_resolution [of "''Gold Enterprise''"] tier_resolution [of "''PREMIUM''"]
      tier_resolution [of "''Starter''"]
    by blast
qed

text \<open>
  C7, counterexample to the claim as written ("any name containing enterprise resolves to
  (enterprise, 10000)"): "Premium Enterprise" contains \<^verbatim>\<open>enterprise\<close> and resolves to
  (premium, 2000), because \<^verbatim>\<open>premium\<close> is tested first.
\<close>

theorem tier_resolution_counterexample:
  "contains_ci ''Premium Enterprise'' ''enterprise'' \<and>
   resolve_tier (Some ''Premium Enterprise'') \<noteq> (''enterprise'', 10000) \<and>
   resolve_tier (Some ''Premium Enterprise'') = (''premium'', 2000)"
  by (simp add: contains_ci_includes resolve_tier_def toLowerCase_def lower_char_def)

section \<open>The spend path\<close>

lemma is_spendD:
  assumes "is_spend req uid x"
  shows "api_stripe_action F db req = recordUsage F db req"
    and "userId req = Some uid" and "uid \<noteq> []" and "truthy (actionType req)"
    and "creditsUsed req = JsNumber x"
  using assms by (auto simp: is_spend_def api_stripe_action_def)

lemma spend_result:
  assumes "is_spend req uid x" and "profiles db uid = Some p"
  shows "api_stripe_action F db req =
     (if RecordUsage_select_profile \<in> F then ((500, ErrorBody ''Failed to fetch profile''), db)
      else if js_less (to_number (usage_credits p)) x then
        ((403, InsufficientBody ''Insufficient credits'' (usage_credits p)), db)
      else
        (case (if RecordUsage_insert_log \<in> F then None else integer_column (stringify x)) of
           None \<Rightarrow> ((500, ErrorBody ''Failed to record usage''), db)
         | Some used \<Rightarrow>
             if \<not> storable (sql_minus (usage_credits p) used) then
               ((500, ErrorBody ''Failed to record usage''), db)
             else
               (case (if RecordUsage_update_credits \<in> F then None
                      else integer_column (stringify (js_minus (to_number (usage_credits p)) x))) of
                  None \<Rightarrow> ((500, ErrorBody ''Failed to update credits''),
                            after_spend db uid p (spend_entry req uid used))
                | Some stored \<Rightarrow>
                    ((200, RecordedBody (stringify x)
                             (stringify (js_minus (to_number (usage_credits p)) x)) (usage_limit p)),
                     (after_spend db uid p (spend_entry req uid used))
                       \<lparr>profiles := (profiles db)(uid \<mapsto> p\<lparr>usage_credits := stored\<rparr>)\<rparr>))))"
proof -
  obtain atype where at: "actionType req = Some atype" "atype \<noteq> []"
    using is_spendD(4)[OF assms(1)] by (cases "actionType req") auto
  show ?thesis
    using is_spendD(2,3,5)[OF assms(1)] at assms(2)
    by (simp add: is_spendD(1)[OF assms(1)] recordUsage_def insert_usage_log_def
        update_usage_credits_def update_profile_def Let_def after_spend_def spend_entry_def
        split: option.splits)
qed

lemma spend_whole:
  assumes "is_spend req uid (Whole n)" and "profiles db uid = Some p"
    and "usage_credits p = Some c"
  shows "api_stripe_action F db req =
     (if RecordUsage_select_profile \<in> F then ((500, ErrorBody ''Failed to fetch profile''), db)
      else if c < n then ((403, InsufficientBody ''Insufficient credits'' (Some c)), db)
      else if RecordUsage_insert_log \<in> F \<or> \<not> in_integer n \<or> \<not> in_integer (c - n) then
        ((500, ErrorBody ''Failed to record usage''), db)
      else if RecordUsage_update_credits \<in> F then
        ((500, ErrorBody ''Failed to update credits''),
         after_spend db uid p (spend_entry req uid (Some n)))
      else ((200, RecordedBody (JsonWhole n) (JsonWhole (c - n)) (usage_limit p)),
            after_spend db uid p (spend_entry req uid (Some n))))"
  unfolding spend_result[OF assms(1,2)]
  by (simp add: assms(3) after_spend_def spend_entry_def)

lemma spend_minus_infinity:
  assumes "is_spend req uid MinusInfinity" and "profiles db uid = Some p"
  shows "api_stripe_action F db req =
     (if RecordUsage_select_profile \<in> F then ((500, ErrorBody ''Failed to fetch profile''), db)
      else if RecordUsage_insert_log \<in> F then ((500, ErrorBody ''Failed to record usage''), db)
      else if RecordUsage_update_credits \<in> F then
        ((500, ErrorBody ''Failed to update credits''),
         after_spend db uid p (spend_entry req uid None))
      else ((200, RecordedBody JsonNull JsonNull (usage_limit p)),
            after_spend db uid p (spend_entry req uid None)))"
  unfolding spend_result[OF assms(1,2)]
  by (cases "usage_credits p") (simp_all add: after_spend_def spend_entry_def)

lemma spend_fractional:
  assumes "is_spend req uid (Fractional k)" and "profiles db uid = Some p"
  shows "api_stripe_action F db req =
     (if RecordUsage_select_profile \<in> F then ((500, ErrorBody ''Failed to fetch profile''), db)
      else if to_number (usage_credits p) \<le> k then
        ((403, InsufficientBody ''Insufficient credits'' (usage_credits p)), db)
      else ((500, ErrorBody ''Failed to record usage''), db))"
  unfolding spend_result[OF assms(1,2)] by simp

text \<open>
  C2. For every account, a spend whose \<^verbatim>\<open>creditsUsed\<close> is strictly greater than the account's
  balance fails with 403 "Insufficient credits", the answer carries the balance, and nothing
  is written: no row is appended to \<^verbatim>\<open>usage_logs\<close> and \<^verbatim>\<open>usage_credits\<close> is unchanged (the
  store after the call is the store before it). "Greater" is the handler's own comparison
  \<^verbatim>\<open>profile.usage_credits < creditsUsed\<close>: for a balance \<open>c\<close> and a whole amount \<open>n\<close> it is
  \<open>c < n\<close>. The read of the profile is taken to succeed; when it fails the answer is 500 and
  nothing is written either.
\<close>

theorem insufficient_credits_no_mutation:
  assumes "is_spend req uid x" and "profiles db uid = Some p"
    and "RecordUsage_select_profile \<notin> F" and "js_less (to_number (usage_credits p)) x"
  shows "api_stripe_action F db req =
           ((403, InsufficientBody ''Insufficient credits'' (usage_credits p)), db)"
  using assms(3,4) by (simp add: spend_result[OF assms(1,2)])

lemma is_spend_example: "uid \<noteq> [] \<Longrightarrow> is_spend (example_spend uid n) uid (Whole n)"
  by (simp add: is_spend_def example_spend_def)

lemma example_db_profile: "profiles (example_db p) ''u1'' = Some p"
  by (simp add: example_db_def)

lemma example_profile_credits: "usage_credits (example_profile t st c l) = Some c"
    "usage_limit (example_profile t st c l) = l"
  by (simp_all add: example_profile_def)

text \<open>
  C2, witness: the scenario of the specification, a spend of 8 on a balance of 5.
\<close>

theorem insufficient_credits_no_mutation_witness:
  "is_spend (example_spend ''u1'' 8) ''u1'' (Whole 8) \<and>
   profiles (example_db (example_profile ''free'' ''active'' 5 10)) ''u1''
     = Some (example_profile ''free'' ''active'' 5 10) \<and>
   RecordUsage_select_profile \<notin> {} \<and>
   usage_credits (example_profile ''free'' ''active'' 5 10) = Some 5 \<and> (5 :: int) < 8 \<and>
   api_stripe_action {} (example_db (example_profile ''free'' ''active'' 5 10)) (example_spend ''u1'' 8)
     = ((403, InsufficientBody ''Insufficient credits'' (Some 5)),
        example_db (example_profile ''free'' ''active'' 5 10))"
proof -
  let ?p = "example_profile ''free'' ''active'' 5 10"
  have a: "is_spend (example_spend ''u1'' 8) ''u1'' (Whole 8)" by (simp add: is_spend_example)
  have b: "profiles (example_db ?p) ''u1'' = Some ?p" by (rule example_db_profile)
  have c: "RecordUsage_select_profile \<notin> {}" by simp
  have d: "js_less (to_number (usage_credits ?p)) (Whole 8)"
    by (simp add: example_profile_credits)
  show ?thesis
    using a b c insufficient_credits_no_mutation [OF a b c d]
    by (simp add: example_profile_credits)
qed











text \<open>
  What an accepted spend of a whole amount has done, and that no other finite amount and
  no amount above every balance is ever accepted.
\<close>

lemma accepted_whole_spend:
  assumes "is_spend req uid (Whole n)" and "profiles db uid = Some p"
    and "response_ok (fst (api_stripe_action F db req))"
  shows "n \<le> to_number (usage_credits p)"
    and "\<exists>p'. profiles (snd (api_stripe_action F db req)) uid = Some p' \<and>
              usage_credits p' = Some (to_number (usage_credits p) - n)"
  using assms(3) unfolding spend_result[OF assms(1,2)]
  by (auto simp: response_ok_def after_spend_def split: if_splits option.splits)

lemma spend_not_whole_refused:
  assumes "is_spend req uid x" and "profiles db uid = Some p"
    and "x = Fractional k \<or> x = PlusInfinity"
  shows "\<not> response_ok (fst (api_stripe_action F db req))"
    and "snd (api_stripe_action F db req) = db"
  using assms(3) unfolding spend_result[OF assms(1,2)]
  by (auto simp: response_ok_def)

text \<open>
  C1 (as amended). For every account, two spends that run one after the other (the second
  starts when the first has returned) and whose combined \<^verbatim>\<open>creditsUsed\<close> exceeds the balance
  never both succeed, whichever store calls fail. The amounts are whole numbers, the only
  finite amounts a spend is ever accepted with; the balance is the one the handler reads, a
  NULL counting as 0.
\<close>

theorem sequential_spends_never_overdraw:
  assumes "is_spend reqA uid (Whole a)" and "is_spend reqB uid (Whole b)"
    and "profiles db uid = Some p" and "to_number (usage_credits p) < a + b"
  shows "\<not> (response_ok (fst (api_stripe_action F1 db reqA)) \<and>
            response_ok (fst (api_stripe_action F2 (snd (api_stripe_action F1 db reqA)) reqB)))"
proof
  assume both: "response_ok (fst (api_stripe_action F1 db reqA)) \<and>
            response_ok (fst (api_stripe_action F2 (snd (api_stripe_action F1 db reqA)) reqB))"
  then have okA: "response_ok (fst (api_stripe_action F1 db reqA))"
    and okB: "response_ok (fst (api_stripe_action F2 (snd (api_stripe_action F1 db reqA)) reqB))"
    by simp_all
  obtain p' where p': "profiles (snd (api_stripe_action F1 db reqA)) uid = Some p'"
      "usage_credits p' = Some (to_number (usage_credits p) - a)"
    using accepted_whole_spend(2)[OF assms(1) assms(3) okA] by blast
  have "b \<le> to_number (usage_credits p')"
    using accepted_whole_spend(1)[OF assms(2) p'(1) okB] .
  with p'(2) assms(4) show False by simp
qed

text \<open>
  A task that runs its three steps without another task in between does what
  \<open>recordUsage\<close> does.
\<close>

lemma steps_are_recordUsage:
  "interleave F [First, First, First] (Pending req, other, db) =
     (Finished (fst (recordUsage F db req)), other, snd (recordUsage F db req))"
  by (cases "userId req"; cases "actionType req"; cases "creditsUsed req")
     (auto simp: recordUsage_def Let_def split: option.splits)

text \<open>
  C1, counterexample to the claim as written: two spends of 6 on a balance of 10,
  interleaved so that both read the balance before either writes. Both are answered 200,
  two rows of 6 credits are in \<^verbatim>\<open>usage_logs\<close>, and the balance ends at 4: 12 credits were
  spent out of 10.
\<close>

theorem concurrent_spends_counterexample:
  "fst example_race = Finished (200, RecordedBody (JsonWhole 6) (JsonWhole 4) 10) \<and>
   fst (snd example_race) = Finished (200, RecordedBody (JsonWhole 6) (JsonWhole 4) 10) \<and>
   task_succeeded (fst example_race) \<and> task_succeeded (fst (snd example_race)) \<and>
   map credits_used (usage_logs (snd (snd example_race))) = [Some 6, Some 6] \<and>
   map_option usage_credits (profiles (snd (snd example_race)) ''u1'') = Some (Some 4) \<and>
   usage_credits (example_profile ''free'' ''active'' 10 10) = Some 10 \<and> (10 :: int) < 6 + 6"
  by (simp add: example_race_def example_spend_def example_db_def example_profile_def
      insert_usage_log_def update_usage_credits_def update_profile_def response_ok_def
      in_integer_def Let_def)

text \<open>
  C1, witness: two spends of 6 on a balance of 10, in sequence; the first succeeds, the
  second does not.
\<close>

theorem sequential_spends_never_overdraw_witness:
  "is_spend (example_spend ''u1'' 6) ''u1'' (Whole 6) \<and>
   profiles (example_db (example_profile ''free'' ''active'' 10 10)) ''u1''
     = Some (example_profile ''free'' ''active'' 10 10) \<and>
   usage_credits (example_profile ''free'' ''active'' 10 10) = Some 10 \<and> (10 :: int) < 6 + 6 \<and>
   response_ok (fst (api_stripe_action {} (example_db (example_profile ''free'' ''active'' 10 10))
                       (example_spend ''u1'' 6))) \<and>
   \<not> response_ok (fst (api_stripe_action {}
          (snd (api_stripe_action {} (example_db (example_profile ''free'' ''active'' 10 10))
                  (example_spend ''u1'' 6)))
          (example_spend ''u1'' 6)))"
proof -
  let ?p = "example_profile ''free'' ''active'' 10 10"
  have a: "is_spend (example_spend ''u1'' 6) ''u1'' (Whole 6)" by (simp add: is_spend_example)
  have b: "profiles (example_db ?p) ''u1'' = Some ?p" by (rule example_db_profile)
  have c: "usage_credits ?p = Some 10" by (rule example_profile_credits)
  have c': "(10 :: int) < 6 + 6" by simp
  have e: "to_number (usage_credits ?p) < 6 + 6" by (simp add: example_profile_credits)
  have d: "response_ok (fst (api_stripe_action {} (example_db ?p) (example_spend ''u1'' 6)))"
    by (simp add: spend_whole[OF a b c] response_ok_def in_integer_def)
  show ?thesis
    using a b c c' d sequential_spends_never_overdraw [OF a a b e, of "{}" "{}"] by blast
qed

text \<open>
  C9 (as amended). The spend operation checks the type of \<^verbatim>\<open>creditsUsed\<close>, not its sign. A
  \<^verbatim>\<open>recordUsage\<close> request whose \<^verbatim>\<open>creditsUsed\<close> is not a number is rejected and the store is
  unchanged. A spend with \<^verbatim>\<open>creditsUsed\<close> \<open>\<le> 0\<close> by an account whose balance is a number at
  least 0 passes the balance check, and with no store call failing: a whole amount is
  accepted when the amount and the new balance fit an INTEGER column (answer 200, row
  appended to \<^verbatim>\<open>usage_logs\<close>, balance minus \<^verbatim>\<open>creditsUsed\<close> as the new balance), and is
  otherwise refused by the store (answer 500, nothing written); an amount that is not whole
  is refused by the store (answer 500, nothing written); \<^verbatim>\<open>-Infinity\<close> is accepted, with
  NULL as the row's amount and as the new balance.
\<close>

theorem spend_checks_type_only:
  "(req_action req = RecordUsageAction \<and> not_a_number (creditsUsed req) \<longrightarrow>
      snd (api_stripe_action F db req) = db \<and> \<not> response_ok (fst (api_stripe_action F db req))) \<and>
   (is_spend req uid (Whole n) \<and> profiles db uid = Some p \<and> usage_credits p = Some c \<and>
    n \<le> 0 \<and> 0 \<le> c \<and>
    RecordUsage_select_profile \<notin> F \<and> RecordUsage_insert_log \<notin> F \<and>
    RecordUsage_update_credits \<notin> F \<longrightarrow>
      api_stripe_action F db req =
        (if in_integer n \<and> in_integer (c - n) then
           ((200, RecordedBody (JsonWhole n) (JsonWhole (c - n)) (usage_limit p)),
            after_spend db uid p (spend_entry req uid (Some n)))
         else ((500, ErrorBody ''Failed to record usage''), db))) \<and>
   (is_spend req uid (Fractional k) \<and> profiles db uid = Some p \<and> usage_credits p = Some c \<and>
    k < 0 \<and> 0 \<le> c \<and> RecordUsage_select_profile \<notin> F \<longrightarrow>
      api_stripe_action F db req = ((500, ErrorBody ''Failed to record usage''), db)) \<and>
   (is_spend req uid MinusInfinity \<and> profiles db uid = Some p \<and>
    RecordUsage_select_profile \<notin> F \<and> RecordUsage_insert_log \<notin> F \<and>
    RecordUsage_update_credits \<notin> F \<longrightarrow>
      api_stripe_action F db req =
        ((200, RecordedBody JsonNull JsonNull (usage_limit p)),
         after_spend db uid p (spend_entry req uid None)))"
proof -
  have bad: "snd (api_stripe_action F db req) = db \<and> \<not> response_ok (fst (api_stripe_action F db req))"
    if "req_action req = RecordUsageAction \<and> not_a_number (creditsUsed req)"
    using that by (simp add: api_stripe_action_def recordUsage_def response_ok_def)
  have whole: "api_stripe_action F db req =
        (if in_integer n \<and> in_integer (c - n) then
           ((200, RecordedBody (JsonWhole n) (JsonWhole (c - n)) (usage_limit p)),
            after_spend db uid p (spend_entry req uid (Some n)))
         else ((500, ErrorBody ''Failed to record usage''), db))"
    if h: "is_spend req uid (Whole n) \<and> profiles db uid = Some p \<and> usage_credits p = Some c \<and>
      n \<le> 0 \<and> 0 \<le> c \<and>
      RecordUsage_select_profile \<notin> F \<and> RecordUsage_insert_log \<notin> F \<and>
      RecordUsage_update_credits \<notin> F"
  proof -
    from h have "is_spend req uid (Whole n)" "profiles db uid = Some p" "usage_credits p = Some c"
      by simp_all
    from spend_whole[OF this, of F] h show ?thesis by simp
  qed
  have frac: "api_stripe_action F db req = ((500, ErrorBody ''Failed to record usage''), db)"
    if h: "is_spend req uid (Fractional k) \<and> profiles db uid = Some p \<and> usage_credits p = Some c \<and>
      k < 0 \<and> 0 \<le> c \<and> RecordUsage_select_profile \<notin> F"
  proof -
    from h have "is_spend req uid (Fractional k)" "profiles db uid = Some p" by simp_all
    from spend_fractional[OF this, of F] h show ?thesis by simp
  qed
  have inf: "api_stripe_action F db req =
        ((200, RecordedBody JsonNull JsonNull (usage_limit p)),
         after_spend db uid p (spend_entry req uid None))"
    if h: "is_spend req uid MinusInfinity \<and> profiles db uid = Some p \<and>
      RecordUsage_select_profile \<notin> F \<and> RecordUsage_insert_log \<notin> F \<and>
      RecordUsage_update_credits \<notin> F"
  proof -
    from h have "is_spend req uid MinusInfinity" "profiles db uid = Some p" by simp_all
    from spend_minus_infinity[OF this, of F] h show ?thesis by simp
  qed
  show ?thesis using bad whole frac inf by blast
qed

text \<open>
  C9, witness: \<^verbatim>\<open>creditsUsed\<close> the string "5" (rejected); 0 on a balance of 10 (accepted);
  -2147483648 on a balance of 10 (the new balance does not fit: 500, nothing written);
  a number between -1 and 0 (500, nothing written); \<^verbatim>\<open>-Infinity\<close> (accepted).
\<close>

theorem spend_checks_type_only_witness:
  "not_a_number (creditsUsed ((example_spend ''u1'' 0)\<lparr>creditsUsed := JsString ''5''\<rparr>)) \<and>
   snd (api_stripe_action {} (example_db (example_profile ''free'' ''active'' 10 10))
          ((example_spend ''u1'' 0)\<lparr>creditsUsed := JsString ''5''\<rparr>))
     = example_db (example_profile ''free'' ''active'' 10 10) \<and>
   is_spend (example_spend ''u1'' 0) ''u1'' (Whole 0) \<and>
   api_stripe_action {} (example_db (example_profile ''free'' ''active'' 10 10)) (example_spend ''u1'' 0)
     = ((200, RecordedBody (JsonWhole 0) (JsonWhole 10) 10),
        after_spend (example_db (example_profile ''free'' ''active'' 10 10)) ''u1''
          (example_profile ''free'' ''active'' 10 10)
          (spend_entry (example_spend ''u1'' 0) ''u1'' (Some 0))) \<and>
   api_stripe_action {} (example_db (example_profile ''free'' ''active'' 10 10))
       (example_spend ''u1'' (- 2147483648))
     = ((500, ErrorBody ''Failed to record usage''),
        example_db (example_profile ''free'' ''active'' 10 10)) \<and>
   api_stripe_action {} (example_db (example_profile ''free'' ''active'' 10 10))
       ((example_spend ''u1'' 0)\<lparr>creditsUsed := JsNumber (Fractional (- 1))\<rparr>)
     = ((500, ErrorBody ''Failed to record usage''),
        example_db (example_profile ''free'' ''active'' 10 10)) \<and>
   api_stripe_action {} (example_db (example_profile ''free'' ''active'' 10 10))
       ((example_spend ''u1'' 0)\<lparr>creditsUsed := JsNumber MinusInfinity\<rparr>)
     = ((200, RecordedBody JsonNull JsonNull 10),
        after_spend (example_db (example_profile ''free'' ''active'' 10 10)) ''u1''
          (example_profile ''free'' ''active'' 10 10)
          (spend_entry ((example_spend ''u1'' 0)\<lparr>creditsUsed := JsNumber MinusInfinity\<rparr>)
             ''u1'' None))"
proof -
  let ?p = "example_profile ''free'' ''active'' 10 10"
  let ?db = "example_db ?p"
  let ?bad = "(example_spend ''u1'' 0)\<lparr>creditsUsed := JsString ''5''\<rparr>"
  let ?frac = "(example_spend ''u1'' 0)\<lparr>creditsUsed := JsNumber (Fractional (- 1))\<rparr>"
  let ?inf = "(example_spend ''u1'' 0)\<lparr>creditsUsed := JsNumber MinusInfinity\<rparr>"
  have a: "req_action ?bad = RecordUsageAction \<and> not_a_number (creditsUsed ?bad)"
    by (simp add: example_spend_def)
  have s0: "is_spend (example_spend ''u1'' 0) ''u1'' (Whole 0)" by (simp add: is_spend_example)
  have sm: "is_spend (example_spend ''u1'' (- 2147483648)) ''u1'' (Whole (- 2147483648))"
    by (simp add: is_spend_example)
  have sf: "is_spend ?frac ''u1'' (Fractional (- 1))"
    by (simp add: is_spend_def example_spend_def)
  have si: "is_spend ?inf ''u1'' MinusInfinity"
    by (simp add: is_spend_def example_spend_def)
  have b: "profiles ?db ''u1'' = Some ?p" by (rule example_db_profile)
  have c: "usage_credits ?p = Some 10" by (rule example_profile_credits)
  have f: "RecordUsage_select_profile \<notin> {} \<and> RecordUsage_insert_log \<notin> {} \<and>
    RecordUsage_update_credits \<notin> {}" by simp
  from spend_checks_type_only [where req = ?bad and F = "{}" and db = ?db] a
  have r1: "snd (api_stripe_action {} ?db ?bad) = ?db" by blast
  from spend_checks_type_only [where req = "example_spend ''u1'' 0" and uid = "''u1''" and n = 0
      and db = ?db and p = ?p and c = 10 and F = "{}"] s0 b c f
  have r2: "api_stripe_action {} ?db (example_spend ''u1'' 0)
     = ((200, RecordedBody (JsonWhole 0) (JsonWhole 10) 10),
        after_spend ?db ''u1'' ?p (spend_entry (example_spend ''u1'' 0) ''u1'' (Some 0)))"
    by (simp add: in_integer_def example_profile_credits)
  from spend_checks_type_only [where req = "example_spend ''u1'' (- 2147483648)"
      and uid = "''u1''" and n = "- 2147483648"
      and db = ?db and p = ?p and c = 10 and F = "{}"] sm b c f
  have r3: "api_stripe_action {} ?db (example_spend ''u1'' (- 2147483648))
     = ((500, ErrorBody ''Failed to record usage''), ?db)"
    by (simp add: in_integer_def)
  from spend_checks_type_only [where req = ?frac and uid = "''u1''" and k = "- 1"
      and db = ?db and p = ?p and c = 10 and F = "{}"] sf b c
  have r4: "api_stripe_action {} ?db ?frac = ((500, ErrorBody ''Failed to record usage''), ?db)"
    by simp
  from spend_checks_type_only [where req = ?inf and uid = "''u1''"
      and db = ?db and p = ?p and F = "{}"] si b f
  have r5: "api_stripe_action {} ?db ?inf
     = ((200, RecordedBody JsonNull JsonNull 10),
        after_spend ?db ''u1'' ?p (spend_entry ?inf ''u1'' None))"
    by (simp add: example_profile_credits)
  show ?thesis using a s0 r1 r2 r3 r4 r5 by blast
qed

text \<open>
  C9, counterexample to the claim as written: a spend of -5 credits on a balance of 10 is
  answered 200, a row with \<^verbatim>\<open>credits_used\<close> -5 is appended and the balance becomes 15.
\<close>

theorem negative_spend_counterexample:
  "creditsUsed (example_spend ''u1'' (- 5)) = JsNumber (Whole (- 5)) \<and>
   fst (api_stripe_action {} (example_db (example_profile ''free'' ''active'' 10 10))
          (example_spend ''u1'' (- 5))) = (200, RecordedBody (JsonWhole (- 5)) (JsonWhole 15) 10) \<and>
   map credits_used (usage_logs (snd (api_stripe_action {}
          (example_db (example_profile ''free'' ''active'' 10 10)) (example_spend ''u1'' (- 5)))))
     = [Some (- 5)] \<and>
   map_option usage_credits (profiles (snd (api_stripe_action {}
          (example_db (example_profile ''free'' ''active'' 10 10)) (example_spend ''u1'' (- 5)))) ''u1'')
     = Some (Some 15)"
  by (simp add: api_stripe_action_def recordUsage_def example_spend_def example_db_def
      example_profile_def insert_usage_log_def update_usage_credits_def update_profile_def
      in_integer_def Let_def)

section \<open>The webhook's writes\<close>

lemma update_profile_None: "profiles db uid = None \<Longrightarrow> update_profile uid f db = db"
  by (simp add: update_profile_def)

lemma update_profile_Some:
  "profiles db uid = Some p \<Longrightarrow> update_profile uid f db = db\<lparr>profiles := (profiles db)(uid \<mapsto> f p)\<rparr>"
  by (simp add: update_profile_def)

lemma update_profile_fields:
  "prices (update_profile uid f db) = prices db"
  "subscriptions (update_profile uid f db) = subscriptions db"
  "usage_logs (update_profile uid f db) = usage_logs db"
  by (simp_all add: update_profile_def split: option.splits)

lemma select_product_name_frame:
  "select_product_name F (update_profile uid f db) pid = select_product_name F db pid"
  "select_product_name F (db\<lparr>subscriptions := S\<rparr>) pid = select_product_name F db pid"
  by (simp_all add: select_product_name_def update_profile_fields)

text \<open>
  The subscription case once the user id and the first item are there: the three writes
  and the four ways out.
\<close>

lemma changed_valid:
  assumes "metadata_userId subscription = Some uid" and "uid \<noteq> []"
    and "items subscription = (price, qty) # others"
  shows "subscription_changed F db c subscription prev =
     (if Webhook_upsert_subscription \<in> F then ((500, Text ''Error updating subscription''), db)
      else
        (let db1 = db\<lparr>subscriptions := (subscriptions db)(sub_id subscription \<mapsto>
                          \<lparr>sub_user_id = uid,
                           status = sub_status subscription,
                           price_id = price,
                           quantity =
                             (case qty of
                                Some q \<Rightarrow> Some q
                              | None \<Rightarrow>
                                  (case subscriptions db (sub_id subscription) of
                                     None \<Rightarrow> None
                                   | Some stored \<Rightarrow> quantity stored)),
                           cancel_at_period_end = sub_cancel_at_period_end subscription,
                           current_period_start = sub_current_period_start subscription,
                           current_period_end = sub_current_period_end subscription,
                           canceled_at = date_or_null (sub_canceled_at subscription),
                           cancel_at = date_or_null (sub_cancel_at subscription),
                           ended_at = date_or_null (sub_ended_at subscription),
                           trial_start = date_or_null (sub_trial_start subscription),
                           trial_end = date_or_null (sub_trial_end subscription)\<rparr>)\<rparr>
         in if Webhook_update_status \<in> F then ((500, Text ''Error updating profile''), db1)
            else
              (let db2 = update_profile uid
                           (\<lambda>p. p\<lparr>subscription_status := Some (sub_status subscription)\<rparr>) db1
               in if sub_status subscription = ''active'' \<and>
                     (c \<or> (truthy prev \<and> prev \<noteq> Some ''active'')) then
                    if Webhook_reset_credits \<in> F then
                      ((500, Text ''Error resetting usage credits''), db2)
                    else
                      ((200, Received),
                       update_profile uid
                         (\<lambda>p. p\<lparr>subscription_tier := Some (fst (resolve_tier (select_product_name F db price))),
                                 usage_credits := Some (snd (resolve_tier (select_product_name F db price))),
                                 usage_limit := snd (resolve_tier (select_product_name F db price))\<rparr>) db2)
                  else ((200, Received), db2))))"
  using assms
  by (auto simp: subscription_changed_def Let_def select_product_name_frame case_prod_beta)

lemma changed_invalid:
  assumes "metadata_userId subscription = None \<or> metadata_userId subscription = Some [] \<or>
           items subscription = []"
  shows "snd (subscription_changed F db c subscription prev) = db"
    and "fst (subscription_changed F db' c subscription prev)
           = fst (subscription_changed F db c subscription prev)"
  using assms
  by (auto simp: subscription_changed_def split: option.splits list.splits)

text \<open>
  Every write of the webhook assigns values that depend on the event and on tables the
  webhook does not write, so each case, run again on its own result, changes nothing more.
\<close>

lemma changed_twice:
  "subscription_changed F (snd (subscription_changed F db c subscription prev)) c subscription prev
     = subscription_changed F db c subscription prev"
proof (cases "metadata_userId subscription = None \<or> metadata_userId subscription = Some [] \<or>
           items subscription = []")
  case True
  show ?thesis
    using changed_invalid[OF True, of F db c prev]
    by (metis prod.collapse changed_invalid(1)[OF True])
next
  case False
  then obtain uid price qty others where v: "metadata_userId subscription = Some uid" "uid \<noteq> []"
      "items subscription = (price, qty) # others"
    by (cases "metadata_userId subscription"; cases "items subscription") auto
  note cv = changed_valid[OF v]
  show ?thesis
  proof (cases "profiles db uid")
    case None
    then show ?thesis
      by (cases qty; cases "subscriptions db (sub_id subscription)")
         (auto simp: cv Let_def update_profile_def select_product_name_def)
  next
    case (Some p)
    then show ?thesis
      by (cases qty; cases "subscriptions db (sub_id subscription)")
         (auto simp: cv Let_def update_profile_def select_product_name_def)
  qed
qed

lemma deleted_twice:
  "subscription_deleted F (snd (subscription_deleted F db subscription)) subscription
     = subscription_deleted F db subscription"
proof (cases "metadata_userId subscription")
  case None
  then show ?thesis by (simp add: subscription_deleted_def)
next
  case (Some uid)
  show ?thesis
    by (cases "profiles db uid"; cases "subscriptions db (sub_id subscription)")
       (auto simp: Some subscription_deleted_def update_profile_def update_subscription_def Let_def)
qed

lemma invoice_paid_twice:
  "invoice_payment_succeeded F retrieve (snd (invoice_payment_succeeded F retrieve db invoice)) invoice
     = invoice_payment_succeeded F retrieve db invoice"
proof -
  show ?thesis
  proof (cases "invoice_subscription invoice")
    case None
    then show ?thesis by (simp add: invoice_payment_succeeded_def)
  next
    case sid: (Some subscriptionId)
    show ?thesis
    proof (cases "invoice_customer invoice")
      case None
      then show ?thesis by (simp add: sid invoice_payment_succeeded_def)
    next
      case cid: (Some customerId)
      show ?thesis
      proof (cases "subscriptions db subscriptionId")
        case None
        then show ?thesis by (simp add: sid cid invoice_payment_succeeded_def)
      next
        case row: (Some subscriptionData)
        show ?thesis
          by (cases "profiles db (sub_user_id subscriptionData)")
             (auto simp: sid cid row invoice_payment_succeeded_def update_profile_def
                select_product_name_def case_prod_beta
                split: option.splits list.splits)
      qed
    qed
  qed
qed

lemma invoice_failed_twice:
  "invoice_payment_failed F (snd (invoice_payment_failed F db invoice)) invoice
     = invoice_payment_failed F db invoice"
proof (cases "invoice_subscription invoice")
  case None
  then show ?thesis by (simp add: invoice_payment_failed_def)
next
  case sid: (Some subscriptionId)
  show ?thesis
  proof (cases "subscriptions db subscriptionId")
    case None
    then show ?thesis by (simp add: sid invoice_payment_failed_def)
  next
    case row: (Some subscriptionData)
    show ?thesis
      by (cases "profiles db (sub_user_id subscriptionData)")
         (auto simp: sid row invoice_payment_failed_def update_profile_def)
  qed
qed

lemma handle_event_twice:
  "handle_event F retrieve (snd (handle_event F retrieve db e)) e = handle_event F retrieve db e"
  by (cases e) (simp_all add: changed_twice deleted_twice invoice_paid_twice invoice_failed_twice)

text \<open>
  C4 (as amended). For every billing event, applying the same event twice in immediate
  succession, with the same answers from the payment provider and the same failing store
  calls, gives the same response and the same final state as applying it once: the second
  run performs its writes again, and they write the values that are already there.
\<close>

theorem replay_in_succession:
  "webhook_action F retrieve (snd (webhook_action F retrieve db request)) request
     = webhook_action F retrieve db request"
  by (simp add: webhook_action_def handle_event_twice split: option.splits)

lemma verified_action:
  assumes "verified request event"
  shows "webhook_action F retrieve db request = handle_event F retrieve db (event_data event)"
  using assms by (simp add: verified_def webhook_action_def)

lemma verified_example: "verified (example_webhook event) event"
  by (simp add: verified_def example_webhook_def)

text \<open>
  C4, counterexample to the claim as written ("when the event is not new the processor
  returns success immediately without re-executing any mutation"): the invoice event is
  applied (balance 2000), the account spends 5 (balance 1995), and the same event, with
  the same id, is delivered again: the webhook answers 200 and the balance is back at 2000.
\<close>

theorem replay_after_spend_counterexample:
  "map_option usage_credits (profiles example_after_invoice ''u1'') = Some (Some 2000) \<and>
   map_option usage_credits (profiles example_after_invoice_and_spend ''u1'') = Some (Some 1995) \<and>
   fst (webhook_action {} example_retrieve example_after_invoice_and_spend
          (example_webhook example_invoice_event)) = (200, Received) \<and>
   map_option usage_credits
     (profiles (snd (webhook_action {} example_retrieve example_after_invoice_and_spend
                       (example_webhook example_invoice_event))) ''u1'') = Some (Some 2000)"
proof -
  have inv: "example_after_invoice =
      example_subscribed_db\<lparr>profiles := [''u1'' \<mapsto> example_profile ''free'' ''active'' 2000 2000]\<rparr>"
    by (simp add: example_after_invoice_def verified_action[OF verified_example]
        example_invoice_event_def invoice_payment_succeeded_def example_subscribed_db_def
        example_retrieve_def example_subscription_def select_product_name_def example_db_def
        resolve_tier_def toLowerCase_def lower_char_def update_profile_def example_profile_def)
  have sp: "example_after_invoice_and_spend =
      example_subscribed_db\<lparr>profiles := [''u1'' \<mapsto> example_profile ''free'' ''active'' 1995 2000],
        usage_logs := [\<lparr>user_id = ''u1'', action_type = ''chat'', credits_used = Some 5, metadata = None\<rparr>]\<rparr>"
    by (simp add: example_after_invoice_and_spend_def inv api_stripe_action_def recordUsage_def
        example_spend_def example_subscribed_db_def example_db_def example_profile_def
        insert_usage_log_def update_usage_credits_def update_profile_def in_integer_def
        Let_def)
  have again: "webhook_action {} example_retrieve example_after_invoice_and_spend
          (example_webhook example_invoice_event) =
      ((200, Received),
       example_subscribed_db\<lparr>profiles := [''u1'' \<mapsto> example_profile ''free'' ''active'' 2000 2000],
        usage_logs := [\<lparr>user_id = ''u1'', action_type = ''chat'', credits_used = Some 5, metadata = None\<rparr>]\<rparr>)"
    by (simp add: sp verified_action[OF verified_example]
        example_invoice_event_def invoice_payment_succeeded_def example_subscribed_db_def
        example_retrieve_def example_subscription_def select_product_name_def example_db_def
        resolve_tier_def toLowerCase_def lower_char_def update_profile_def example_profile_def)
  have g1: "map_option usage_credits (profiles example_after_invoice ''u1'') = Some (Some 2000)"
    by (simp add: inv example_profile_credits)
  have g2: "map_option usage_credits (profiles example_after_invoice_and_spend ''u1'')
      = Some (Some 1995)"
    by (simp add: sp example_profile_credits)
  have g3: "fst (webhook_action {} example_retrieve example_after_invoice_and_spend
          (example_webhook example_invoice_event)) = (200, Received)"
    by (simp add: again)
  have g4: "map_option usage_credits
     (profiles (snd (webhook_action {} example_retrieve example_after_invoice_and_spend
                       (example_webhook example_invoice_event))) ''u1'') = Some (Some 2000)"
    by (simp add: again example_profile_credits)
  show ?thesis
    using g1 g2 g3 g4 by blast
qed

text \<open>
  C4, an instance: the invoice event delivered again right after it was applied.
\<close>

theorem replay_in_succession_witness:
  "webhook_action {} example_retrieve example_after_invoice (example_webhook example_invoice_event)
     = ((200, Received), example_after_invoice)"
proof -
  have "fst (webhook_action {} example_retrieve example_subscribed_db
            (example_webhook example_invoice_event)) = (200, Received)"
    by (simp add: verified_action[OF verified_example]
        example_invoice_event_def invoice_payment_succeeded_def example_subscribed_db_def
        example_retrieve_def example_subscription_def select_product_name_def example_db_def
        case_prod_beta)
  then show ?thesis
    using replay_in_succession [of "{}" example_retrieve example_subscribed_db
        "example_webhook example_invoice_event"]
    by (simp add: example_after_invoice_def prod_eq_iff)
qed









section \<open>The free tier's limit\<close>



text \<open>
  Where the trigger has already created the profile, the insert of the sign-up route is
  refused, the route ignores the error, and the profile keeps the trigger's 10 credits.
\<close>

lemma signUp_after_trigger:
  assumes "handle_new_user uid mail db = Some db1"
  shows "snd (signUp F db1 sreq (AuthData (Some (uid, m)))) = db1"
    and "\<exists>p. profiles db1 uid = Some p \<and> usage_limit p = 10 \<and> usage_credits p = Some 10"
  using assms
  by (auto simp: signUp_def insert_profile_def handle_new_user_def split: if_splits)



section \<open>The usage middleware\<close>

lemma tracker_spend_is_spend:
  assumes "tracker_userId t \<noteq> []" and "tracker_stripeKey t \<noteq> []"
    and "tracker_supabaseUrl t \<noteq> []" and "tracker_supabaseKey t \<noteq> []" and "atype \<noteq> []"
  shows "is_spend ((tracker_request t RecordUsageAction)
                     \<lparr>actionType := Some atype, creditsUsed := JsNumber (Whole n),
                      req_metadata := meta\<rparr>)
           (tracker_userId t) (Whole n)"
  using assms by (simp add: is_spend_def tracker_request_def)

lemma hasEnoughCredits_iff:
  assumes "tracker_userId t \<noteq> []" and "tracker_stripeKey t \<noteq> []"
    and "tracker_supabaseUrl t \<noteq> []" and "tracker_supabaseKey t \<noteq> []"
    and "profiles db (tracker_userId t) = Some p"
    and "fetch_error env = None"
    and "GetUserUsage_select_profile \<notin> failing env" and "GetUserUsage_select_logs \<notin> failing env"
  shows "hasEnoughCredits env db t needed \<longleftrightarrow> needed \<le> to_number (usage_credits p)"
  using assms
  by (simp add: hasEnoughCredits_def tracker_getUserUsage_def api_stripe_action_def
      tracker_request_def getUserUsage_def response_ok_def Let_def)

text \<open>
  C8 (as amended). \<^verbatim>\<open>checkAndRecordUsage\<close> first reads the balance with a \<^verbatim>\<open>getUserUsage\<close>
  request and compares it itself; only when the balance read is at least
  \<^verbatim>\<open>creditsRequired\<close> does it send one \<^verbatim>\<open>recordUsage\<close> request. Its result has the two fields
  \<^verbatim>\<open>allowed\<close> and \<^verbatim>\<open>error\<close>: a denial for insufficient credits is
  \<^verbatim>\<open>{ allowed: false, error: 'Insufficient credits' }\<close>, with the store unchanged and without
  the balance. (Stated for well-formed options of an existing account whose balance read
  succeeds; the other results are the spend's: a failing store call or a number that an
  INTEGER column cannot take denies with the spend's error, and otherwise the request is
  allowed, the row is in \<^verbatim>\<open>usage_logs\<close> and the balance is the balance read minus
  \<^verbatim>\<open>creditsRequired\<close>.)
\<close>

theorem usage_gate_checks_then_spends:
  assumes "opt_userId options \<noteq> []" and "opt_stripeKey options \<noteq> []"
    and "opt_supabaseUrl options \<noteq> []" and "opt_supabaseKey options \<noteq> []"
    and "opt_actionType options \<noteq> []"
    and "profiles db (opt_userId options) = Some p"
    and "fetch_error env = None"
    and "GetUserUsage_select_profile \<notin> failing env" and "GetUserUsage_select_logs \<notin> failing env"
  shows "checkAndRecordUsage env db options =
     (if to_number (usage_credits p) < creditsRequired options then
        (\<lparr>allowed = False, decision_error = Some ''Insufficient credits''\<rparr>, db)
      else if RecordUsage_select_profile \<in> failing env then
        (\<lparr>allowed = False, decision_error = Some ''Failed to fetch profile''\<rparr>, db)
      else if RecordUsage_insert_log \<in> failing env \<or> \<not> in_integer (creditsRequired options) \<or>
              \<not> storable (sql_minus (usage_credits p) (Some (creditsRequired options))) then
        (\<lparr>allowed = False, decision_error = Some ''Failed to record usage''\<rparr>, db)
      else if RecordUsage_update_credits \<in> failing env \<or>
              \<not> in_integer (to_number (usage_credits p) - creditsRequired options) then
        (\<lparr>allowed = False, decision_error = Some ''Failed to update credits''\<rparr>,
         after_spend db (opt_userId options) p (options_entry options))
      else
        (\<lparr>allowed = True, decision_error = None\<rparr>,
         (after_spend db (opt_userId options) p (options_entry options))
           \<lparr>profiles := (profiles db)(opt_userId options \<mapsto>
              p\<lparr>usage_credits := Some (to_number (usage_credits p) - creditsRequired options)\<rparr>)\<rparr>))"
proof -
  let ?t = "\<lparr>tracker_userId = opt_userId options, tracker_stripeKey = opt_stripeKey options,
             tracker_supabaseUrl = opt_supabaseUrl options,
             tracker_supabaseKey = opt_supabaseKey options\<rparr>"
  let ?req = "(tracker_request ?t RecordUsageAction)
                \<lparr>actionType := Some (opt_actionType options),
                 creditsUsed := JsNumber (Whole (creditsRequired options)),
                 req_metadata := opt_metadata options\<rparr>"
  have enough: "hasEnoughCredits env db ?t (creditsRequired options)
                  \<longleftrightarrow> creditsRequired options \<le> to_number (usage_credits p)"
    using assms by (intro hasEnoughCredits_iff) simp_all
  have sp: "is_spend ?req (opt_userId options) (Whole (creditsRequired options))"
    using tracker_spend_is_spend[of ?t "opt_actionType options"] assms by simp
  have entry: "spend_entry ?req (opt_userId options) (Some (creditsRequired options))
      = options_entry options"
    by (simp add: spend_entry_def options_entry_def tracker_request_def)
  note res = spend_result[OF sp assms(6), of "failing env"]
  show ?thesis
    using assms(1-4) assms(7) enough entry
    by (simp add: checkAndRecordUsage_def Let_def tracker_recordUsage_def res response_ok_def)
qed

text \<open>
  For a balance that is a number the last two cases are simpler: the new balance fits
  whenever the trigger's subtraction did, and the final store is the store after the
  insert.
\<close>

lemma after_spend_final:
  assumes "usage_credits p = Some c"
  shows "(after_spend db uid p (options_entry options))
           \<lparr>profiles := (profiles db)(uid \<mapsto>
              p\<lparr>usage_credits := Some (to_number (usage_credits p) - creditsRequired options)\<rparr>)\<rparr>
         = after_spend db uid p (options_entry options)"
  by (simp add: after_spend_def options_entry_def assms)

lemma example_options_fields:
  "opt_userId (example_options n) = ''u1''" "opt_stripeKey (example_options n) \<noteq> []"
  "opt_supabaseUrl (example_options n) \<noteq> []" "opt_supabaseKey (example_options n) \<noteq> []"
  "opt_actionType (example_options n) \<noteq> []" "creditsRequired (example_options n) = n"
  by (simp_all add: example_options_def)

lemma example_env_fields: "failing (example_env F) = F" "fetch_error (example_env F) = None"
  by (simp_all add: example_env_def)

text \<open>
  C8, witness: account \<open>u1\<close> with 10 credits is allowed 5 and denied 11.
\<close>

theorem usage_gate_checks_then_spends_witness:
  "profiles (example_db (example_profile ''free'' ''active'' 10 10)) ''u1''
     = Some (example_profile ''free'' ''active'' 10 10) \<and>
   fetch_error (example_env {}) = None \<and>
   checkAndRecordUsage (example_env {}) (example_db (example_profile ''free'' ''active'' 10 10))
       (example_options 5)
     = (\<lparr>allowed = True, decision_error = None\<rparr>,
        after_spend (example_db (example_profile ''free'' ''active'' 10 10)) ''u1''
          (example_profile ''free'' ''active'' 10 10) (options_entry (example_options 5))) \<and>
   checkAndRecordUsage (example_env {}) (example_db (example_profile ''free'' ''active'' 10 10))
       (example_options 11)
     = (\<lparr>allowed = False, decision_error = Some ''Insufficient credits''\<rparr>,
        example_db (example_profile ''free'' ''active'' 10 10))"
proof -
  let ?p = "example_profile ''free'' ''active'' 10 10"
  have u: "opt_userId (example_options n) \<noteq> []" for n by (simp add: example_options_fields)
  have a: "profiles (example_db ?p) (opt_userId (example_options n)) = Some ?p" for n
    by (simp add: example_options_fields example_db_profile)
  have e: "fetch_error (example_env {}) = None"
      "GetUserUsage_select_profile \<notin> failing (example_env {})"
      "GetUserUsage_select_logs \<notin> failing (example_env {})"
    by (simp_all add: example_env_fields)
  note t5 = usage_gate_checks_then_spends
      [OF u[of 5] example_options_fields(2-5)[of 5] a[of 5] e]
  note t11 = usage_gate_checks_then_spends
      [OF u[of 11] example_options_fields(2-5)[of 11] a[of 11] e]
  have fin: "(after_spend (example_db ?p) ''u1'' ?p (options_entry (example_options 5)))
           \<lparr>profiles := (profiles (example_db ?p))(''u1'' \<mapsto>
              ?p\<lparr>usage_credits := Some (to_number (usage_credits ?p)
                                           - creditsRequired (example_options 5))\<rparr>)\<rparr>
         = after_spend (example_db ?p) ''u1'' ?p (options_entry (example_options 5))"
    by (rule after_spend_final[OF example_profile_credits(1)])
  show ?thesis
    using t5 t11 a[of 5] e(1) fin
    by (simp add: example_options_fields example_env_fields example_profile_credits
        in_integer_def)
qed

text \<open>
  C8, counterexample to the claim as written: accounts with 3 and with 4 credits asking
  for 5 get the same denial, which has no field for the balance; and an account with 10
  credits asking for 5 is denied with "Insufficient credits" when the preliminary read
  fails, although the spend itself would have been accepted: the denial comes from the
  separate read, not from the spend.
\<close>

theorem usage_gate_denial_counterexample:
  "fst (checkAndRecordUsage (example_env {}) (example_db (example_profile ''free'' ''active'' 3 10))
          (example_options 5))
     = \<lparr>allowed = False, decision_error = Some ''Insufficient credits''\<rparr> \<and>
   fst (checkAndRecordUsage (example_env {}) (example_db (example_profile ''free'' ''active'' 4 10))
          (example_options 5))
     = \<lparr>allowed = False, decision_error = Some ''Insufficient credits''\<rparr> \<and>
   usage_credits (example_profile ''free'' ''active'' 3 10)
     \<noteq> usage_credits (example_profile ''free'' ''active'' 4 10) \<and>
   checkAndRecordUsage (example_env {GetUserUsage_select_profile})
       (example_db (example_profile ''free'' ''active'' 10 10)) (example_options 5)
     = (\<lparr>allowed = False, decision_error = Some ''Insufficient credits''\<rparr>,
        example_db (example_profile ''free'' ''active'' 10 10)) \<and>
   fst (api_stripe_action {GetUserUsage_select_profile}
          (example_db (example_profile ''free'' ''active'' 10 10)) (example_spend ''u1'' 5))
     = (200, RecordedBody (JsonWhole 5) (JsonWhole 5) 10)"
proof -
  have d: "fst (checkAndRecordUsage (example_env {}) (example_db (example_profile ''free'' ''active'' c 10))
          (example_options 5))
     = \<lparr>allowed = False, decision_error = Some ''Insufficient credits''\<rparr>" if "c < 5" for c
    using that
    by (simp add: checkAndRecordUsage_def example_options_def example_env_def hasEnoughCredits_def
        tracker_getUserUsage_def api_stripe_action_def tracker_request_def getUserUsage_def
        response_ok_def example_db_def example_profile_def Let_def)
  have r: "checkAndRecordUsage (example_env {GetUserUsage_select_profile})
       (example_db (example_profile ''free'' ''active'' 10 10)) (example_options 5)
     = (\<lparr>allowed = False, decision_error = Some ''Insufficient credits''\<rparr>,
        example_db (example_profile ''free'' ''active'' 10 10))"
    by (simp add: checkAndRecordUsage_def example_options_def example_env_def hasEnoughCredits_def
        tracker_getUserUsage_def api_stripe_action_def tracker_request_def getUserUsage_def
        response_ok_def Let_def)
  have s: "fst (api_stripe_action {GetUserUsage_select_profile}
          (example_db (example_profile ''free'' ''active'' 10 10)) (example_spend ''u1'' 5))
     = (200, RecordedBody (JsonWhole 5) (JsonWhole 5) 10)"
  proof -
    have sp: "is_spend (example_spend ''u1'' 5) ''u1'' (Whole 5)" by (simp add: is_spend_example)
    show ?thesis
      using spend_whole[where F = "{GetUserUsage_select_profile}"
            and p = "example_profile ''free'' ''active'' 10 10" and c = 10,
          OF sp example_db_profile example_profile_credits(1)]
      by (simp add: in_integer_def example_profile_credits)
  qed
  show ?thesis
    using d[of 3] d[of 4] r s by (simp add: example_profile_credits)
qed

end
